theory Spec2Isabelle
  imports Main "HOL-Library.Word" "HOL-Library.Sublist" "HOL-Library.AList"
begin

unbundle bit_operations_syntax

section \<open>Go library functions used by the package\<close>

text \<open>
  Go strings are byte sequences; they are modelled as \<^typ>\<open>string\<close>, whose characters are
  bytes. The functions of this section are not part of the repository: they belong to the
  Go standard library (\<^verbatim>\<open>fmt\<close>, \<^verbatim>\<open>strings\<close>, \<^verbatim>\<open>path\<close>) and are modelled from
  their documented behaviour.
\<close>

subsection \<open>\<^verbatim>\<open>fmt.Sprintf("%d", n)\<close>\<close>

fun digits :: "nat \<Rightarrow> string" where
  "digits n = (if n < 10 then [''0123456789'' ! n]
               else digits (n div 10) @ [''0123456789'' ! (n mod 10)])"

declare digits.simps [simp del]

definition itoa :: "int \<Rightarrow> string" where
  "itoa i = (if i < 0 then CHR ''-'' # digits (nat (- i)) else digits (nat i))"

subsection \<open>\<^verbatim>\<open>strings.TrimSpace\<close> and \<^verbatim>\<open>strings.Fields\<close>\<close>

text \<open>
  White space is what \<^verbatim>\<open>unicode.IsSpace\<close> accepts: the six ASCII characters tab, line feed,
  vertical tab, form feed, carriage return and space, and the code points U+0085, U+00A0,
  U+1680, U+2000 to U+200A, U+2028, U+2029, U+202F, U+205F and U+3000. \<open>space_runes\<close>
  lists their UTF-8 encodings. No encoding is a prefix or a suffix of another, and none
  starts with a continuation byte, so decoding from the left (or from the right) and
  testing the rune is the same as testing for one of these byte sequences at that end.
\<close>

definition space_runes :: "string list" where
  "space_runes =
     [[CHR 0x09], [CHR 0x0A], [CHR 0x0B], [CHR 0x0C], [CHR 0x0D], [CHR 0x20],
      [CHR 0xC2, CHR 0x85], [CHR 0xC2, CHR 0xA0],
      [CHR 0xE1, CHR 0x9A, CHR 0x80],
      [CHR 0xE2, CHR 0x80, CHR 0x80], [CHR 0xE2, CHR 0x80, CHR 0x81],
      [CHR 0xE2, CHR 0x80, CHR 0x82], [CHR 0xE2, CHR 0x80, CHR 0x83],
      [CHR 0xE2, CHR 0x80, CHR 0x84], [CHR 0xE2, CHR 0x80, CHR 0x85],
      [CHR 0xE2, CHR 0x80, CHR 0x86], [CHR 0xE2, CHR 0x80, CHR 0x87],
      [CHR 0xE2, CHR 0x80, CHR 0x88], [CHR 0xE2, CHR 0x80, CHR 0x89],
      [CHR 0xE2, CHR 0x80, CHR 0x8A],
      [CHR 0xE2, CHR 0x80, CHR 0xA8], [CHR 0xE2, CHR 0x80, CHR 0xA9],
      [CHR 0xE2, CHR 0x80, CHR 0xAF],
      [CHR 0xE2, CHR 0x81, CHR 0x9F],
      [CHR 0xE3, CHR 0x80, CHR 0x80]]"

definition leadingSpace :: "string \<Rightarrow> string option" where
  "leadingSpace s = find (\<lambda>r. prefix r s) space_runes"

definition trailingSpace :: "string \<Rightarrow> string option" where
  "trailingSpace s = find (\<lambda>r. suffix r s) space_runes"

function TrimLeftSpace :: "string \<Rightarrow> string" where
  "TrimLeftSpace s =
     (case leadingSpace s of
        None \<Rightarrow> s
      | Some r \<Rightarrow> TrimLeftSpace (drop (length r) s))"
  by pat_completeness auto
termination
proof (relation "measure length")
  show "wf (measure (length :: string \<Rightarrow> nat))" by simp
next
  fix s r :: string
  assume "leadingSpace s = Some r"
  then obtain i where "i < length space_runes" and "r = space_runes ! i"
    and "prefix r s"
    unfolding leadingSpace_def find_Some_iff by blast
  then have "r \<in> set space_runes" by simp
  then have "r \<noteq> []" by (auto simp: space_runes_def)
  with \<open>prefix r s\<close> have "s \<noteq> []" by auto
  with \<open>r \<noteq> []\<close> show "(drop (length r) s, s) \<in> measure length" by simp
qed

function TrimRightSpace :: "string \<Rightarrow> string" where
  "TrimRightSpace s =
     (case trailingSpace s of
        None \<Rightarrow> s
      | Some r \<Rightarrow> TrimRightSpace (take (length s - length r) s))"
  by pat_completeness auto
termination
proof (relation "measure length")
  show "wf (measure (length :: string \<Rightarrow> nat))" by simp
next
  fix s r :: string
  assume "trailingSpace s = Some r"
  then obtain i where "i < length space_runes" and "r = space_runes ! i"
    and "suffix r s"
    unfolding trailingSpace_def find_Some_iff by blast
  then have "r \<in> set space_runes" by simp
  then have "r \<noteq> []" by (auto simp: space_runes_def)
  with \<open>suffix r s\<close> have "s \<noteq> []" by auto
  with \<open>r \<noteq> []\<close> show "(take (length s - length r) s, s) \<in> measure length" by simp
qed

declare TrimLeftSpace.simps [simp del] TrimRightSpace.simps [simp del]

definition TrimSpace :: "string \<Rightarrow> string" where
  "TrimSpace s = TrimRightSpace (TrimLeftSpace s)"

text \<open>
  \<^verbatim>\<open>strings.Fields\<close> splits around each run of white space; \<open>fieldsFrom cur s\<close> scans
  \<open>s\<close> with the field under construction in \<open>cur\<close>.
\<close>

function fieldsFrom :: "string \<Rightarrow> string \<Rightarrow> string list" where
  "fieldsFrom cur s =
     (if s = [] then (if cur = [] then [] else [cur])
      else case leadingSpace s of
        Some r \<Rightarrow> (if cur = [] then [] else [cur]) @ fieldsFrom [] (drop (length r) s)
      | None \<Rightarrow> fieldsFrom (cur @ [hd s]) (tl s))"
  by pat_completeness auto
termination
proof (relation "measure (\<lambda>(cur, s). length s)")
  show "wf (measure (\<lambda>(cur :: string, s :: string). length s))" by simp
next
  fix cur s r :: string
  assume "s \<noteq> []" and "leadingSpace s = Some r"
  then obtain i where "i < length space_runes" and "r = space_runes ! i"
    unfolding leadingSpace_def find_Some_iff by blast
  then have "r \<in> set space_runes" by simp
  then have "r \<noteq> []" by (auto simp: space_runes_def)
  with \<open>s \<noteq> []\<close> show "(([], drop (length r) s), (cur, s)) \<in> measure (\<lambda>(cur, s). length s)"
    by simp
next
  fix cur s :: string
  assume "s \<noteq> []"
  then show "((cur @ [hd s], tl s), (cur, s)) \<in> measure (\<lambda>(cur, s). length s)"
    by simp
qed

declare fieldsFrom.simps [simp del]

definition Fields :: "string \<Rightarrow> string list" where
  "Fields s = fieldsFrom [] s"

subsection \<open>\<^verbatim>\<open>path.Clean\<close>, \<^verbatim>\<open>path.Join\<close> and \<^verbatim>\<open>path.Base\<close>\<close>

fun splitOn :: "char \<Rightarrow> string \<Rightarrow> string list" where
  "splitOn c [] = [[]]"
| "splitOn c (x # xs) =
     (if x = c then [] # splitOn c xs
      else (case splitOn c xs of
              [] \<Rightarrow> [[x]]
            | y # ys \<Rightarrow> (x # y) # ys))"

fun joinWith :: "string \<Rightarrow> string list \<Rightarrow> string" where
  "joinWith sep [] = []"
| "joinWith sep [x] = x"
| "joinWith sep (x # y # ys) = x @ sep @ joinWith sep (y # ys)"

text \<open>
  \<^verbatim>\<open>path.Clean\<close> by its documented rules: multiple slashes become one, every \<^verbatim>\<open>.\<close>
  element goes, every inner \<^verbatim>\<open>..\<close> goes together with the element before it, a
  \<^verbatim>\<open>..\<close> at the start of a rooted path goes, and the empty result is \<^verbatim>\<open>.\<close>.
  \<open>cleanStep\<close> handles one element against the elements kept so far.
\<close>

definition cleanStep :: "bool \<Rightarrow> string list \<Rightarrow> string \<Rightarrow> string list" where
  "cleanStep rooted kept e =
     (if e = ''..'' then
        (if kept \<noteq> [] \<and> last kept \<noteq> ''..'' then butlast kept
         else if rooted then kept
         else kept @ [''..''])
      else kept @ [e])"

definition Clean :: "string \<Rightarrow> string" where
  "Clean p =
     (if p = [] then ''.''
      else
        let rooted = (hd p = CHR ''/'');
            elems = filter (\<lambda>e. e \<noteq> [] \<and> e \<noteq> ''.'') (splitOn CHR ''/'' p);
            kept = foldl (cleanStep rooted) [] elems;
            out = (if rooted then ''/'' else []) @ joinWith ''/'' kept
        in if out = [] then ''.'' else out)"

fun joinBuf :: "string \<Rightarrow> string list \<Rightarrow> string" where
  "joinBuf buf [] = buf"
| "joinBuf buf (e # es) =
     joinBuf (if buf \<noteq> [] \<or> e \<noteq> []
              then (if buf \<noteq> [] then buf @ ''/'' else buf) @ e
              else buf) es"

definition Join :: "string list \<Rightarrow> string" where
  "Join elem = (if concat elem = [] then [] else Clean (joinBuf [] elem))"

definition Base :: "string \<Rightarrow> string" where
  "Base p =
     (if p = [] then ''.''
      else
        let p1 = rev (dropWhile (\<lambda>c. c = CHR ''/'') (rev p));
            p2 = rev (takeWhile (\<lambda>c. c \<noteq> CHR ''/'') (rev p1))
        in if p2 = [] then ''/'' else p2)"

section \<open>Data model (bank.go, chip.go, sim.go)\<close>

text \<open>
  Go's \<^verbatim>\<open>int\<close> values (line offsets, line counts, levels, hog directions) are only
  compared and printed, never computed with, so they are modelled as \<^typ>\<open>int\<close>.

  The maps \<^verbatim>\<open>Names\<close> and \<^verbatim>\<open>Hogs\<close> of a bank are association lists with one entry per
  key. Go visits the entries of a map in an order it does not specify; the order of the
  list stands for the order of that visit, and every theorem below holds for every list.
  No theorem relates two visits of the same map.
\<close>

type_synonym HogDirection = int

definition HogDirectionInput :: HogDirection where
  "HogDirectionInput = 0"

definition HogDirectionOutputLow :: HogDirection where
  "HogDirectionOutputLow = 1"

definition HogDirectionOutputHigh :: HogDirection where
  "HogDirectionOutputHigh = 2"

record Hog =
  Consumer :: string
  Direction :: HogDirection

record Bank =
  NumLines :: int
  Label :: string
  Names :: "(int \<times> string) list"
  Hogs :: "(int \<times> Hog) list"

definition LevelInactive :: int where
  "LevelInactive = 0"

definition LevelActive :: int where
  "LevelActive = 1"

text \<open>
  The field \<^verbatim>\<open>configfsPath\<close> of \<^verbatim>\<open>Chip\<close> is called \<open>bankConfigfsPath\<close> here, since
  \<^verbatim>\<open>Sim\<close> has a field of the same name; the code never reads or writes it.
\<close>

record Chip =
  bankConfigfsPath :: string
  devPath :: string
  chipName :: string
  devName :: string
  sysfsPath :: string
  cfg :: Bank

record Sim =
  Name :: string
  Chips :: "Chip list"
  configfsPath :: string

record builder =
  name :: string
  banks :: "Bank list"

text \<open>
  \<open>OSError\<close> is an error returned by the operating system or by a command that was run;
  \<open>New\<close> is an error made by \<^verbatim>\<open>errors.New\<close> or \<^verbatim>\<open>errors.Errorf\<close>, with its message.
\<close>

datatype error = OSError string | New string

section \<open>The operating system\<close>

text \<open>
  The package works through calls of the Go packages \<^verbatim>\<open>os\<close> and \<^verbatim>\<open>os/exec\<close>. Their
  behaviour belongs to the kernel and is a parameter of the model: a record of functions
  over a state \<open>'w\<close> of the outside world, each returning its result and the next state.
  \<open>os_ScanLines\<close> stands for \<^verbatim>\<open>os.Open\<close> followed by a \<^verbatim>\<open>bufio.Scanner\<close> over the file:
  the error of \<^verbatim>\<open>Open\<close>, or the lines the scanner yields. \<open>exec_Run\<close> stands for
  \<^verbatim>\<open>exec.Command(...).Run()\<close>. The mode returned by \<open>os_Lstat\<close> is the 32-bit
  \<^verbatim>\<open>fs.FileMode\<close>.
\<close>

record 'w os =
  os_ReadFile :: "string \<Rightarrow> 'w \<Rightarrow> (error + string) \<times> 'w"
  os_WriteFile :: "string \<Rightarrow> string \<Rightarrow> nat \<Rightarrow> 'w \<Rightarrow> error option \<times> 'w"
  os_Stat :: "string \<Rightarrow> 'w \<Rightarrow> error option \<times> 'w"
  os_Lstat :: "string \<Rightarrow> 'w \<Rightarrow> (error + 32 word) \<times> 'w"
  os_Mkdir :: "string \<Rightarrow> nat \<Rightarrow> 'w \<Rightarrow> error option \<times> 'w"
  os_MkdirAll :: "string \<Rightarrow> nat \<Rightarrow> 'w \<Rightarrow> error option \<times> 'w"
  os_Remove :: "string \<Rightarrow> 'w \<Rightarrow> error option \<times> 'w"
  os_ScanLines :: "string \<Rightarrow> 'w \<Rightarrow> (error + string list) \<times> 'w"
  exec_Run :: "string list \<Rightarrow> 'w \<Rightarrow> error option \<times> 'w"
  os_Executable :: "error + string"
  os_Getpid :: int

definition mode0755 :: nat where
  "mode0755 = 7 * 64 + 5 * 8 + 5"

definition mode0666 :: nat where
  "mode0666 = 6 * 64 + 6 * 8 + 6"

definition ModeSymlink :: "32 word" where
  "ModeSymlink = push_bit 27 1"

section \<open>Attribute files (attr.go)\<close>

definition readAttr :: "'w os \<Rightarrow> string \<Rightarrow> string \<Rightarrow> 'w \<Rightarrow> (error + string) \<times> 'w" where
  "readAttr os p attr w =
     (case os_ReadFile os (Join [p, attr]) w of
        (Inl err, w') \<Rightarrow> (Inl err, w')
      | (Inr data, w') \<Rightarrow> (Inr (TrimSpace data), w'))"

definition writeAttr :: "'w os \<Rightarrow> string \<Rightarrow> string \<Rightarrow> string \<Rightarrow> 'w \<Rightarrow> error option \<times> 'w" where
  "writeAttr os p attr val w = os_WriteFile os (Join [p, attr]) val mode0666 w"

section \<open>Chips (chip.go)\<close>

definition ChipName :: "Chip \<Rightarrow> string" where
  "ChipName c = chipName c"

definition Config :: "Chip \<Rightarrow> Bank" where
  "Config c = cfg c"

definition DevPath :: "Chip \<Rightarrow> string" where
  "DevPath c = devPath c"

definition attr :: "'w os \<Rightarrow> Chip \<Rightarrow> int \<Rightarrow> string \<Rightarrow> 'w \<Rightarrow> (error + string) \<times> 'w" where
  "attr os c offset nm w =
     readAttr os (Join [sysfsPath c, ''sim_gpio'' @ itoa offset]) nm w"

definition setAttr :: "'w os \<Rightarrow> Chip \<Rightarrow> int \<Rightarrow> string \<Rightarrow> string \<Rightarrow> 'w \<Rightarrow> error option \<times> 'w" where
  "setAttr os c offset nm val w =
     writeAttr os (Join [sysfsPath c, ''sim_gpio'' @ itoa offset]) nm val w"

text \<open>
  \<^verbatim>\<open>Level\<close> and \<^verbatim>\<open>Pull\<close> return a pair \<^verbatim>\<open>(int, error)\<close>; the error is \<open>None\<close> for
  Go's \<^verbatim>\<open>nil\<close>.
\<close>

definition Level :: "'w os \<Rightarrow> Chip \<Rightarrow> int \<Rightarrow> 'w \<Rightarrow> (int \<times> error option) \<times> 'w" where
  "Level os c offset w =
     (case attr os c offset ''value'' w of
        (Inr v, w') \<Rightarrow>
          (if v = ''0'' then ((LevelInactive, None), w')
           else if v = ''1'' then ((LevelActive, None), w')
           else ((LevelInactive, Some (New (''unexpected level value: '' @ v))), w'))
      | (Inl err, w') \<Rightarrow> ((LevelInactive, Some err), w'))"

definition Pull :: "'w os \<Rightarrow> Chip \<Rightarrow> int \<Rightarrow> 'w \<Rightarrow> (int \<times> error option) \<times> 'w" where
  "Pull os c offset w =
     (case attr os c offset ''pull'' w of
        (Inr v, w') \<Rightarrow>
          (if v = ''pull-down'' then ((LevelInactive, None), w')
           else if v = ''pull-up'' then ((LevelActive, None), w')
           else ((LevelInactive, Some (New (''unexpected pull value: '' @ v))), w'))
      | (Inl err, w') \<Rightarrow> ((LevelInactive, Some err), w'))"

definition SetPull :: "'w os \<Rightarrow> Chip \<Rightarrow> int \<Rightarrow> int \<Rightarrow> 'w \<Rightarrow> error option \<times> 'w" where
  "SetPull os c offset level w =
     (let l = (if level = LevelActive then ''pull-up'' else ''pull-down'')
      in setAttr os c offset ''pull'' l w)"

definition Pulldown :: "'w os \<Rightarrow> Chip \<Rightarrow> int \<Rightarrow> 'w \<Rightarrow> error option \<times> 'w" where
  "Pulldown os c offset w = SetPull os c offset LevelInactive w"

definition Pullup :: "'w os \<Rightarrow> Chip \<Rightarrow> int \<Rightarrow> 'w \<Rightarrow> error option \<times> 'w" where
  "Pullup os c offset w = SetPull os c offset LevelActive w"

definition Toggle :: "'w os \<Rightarrow> Chip \<Rightarrow> int \<Rightarrow> 'w \<Rightarrow> error option \<times> 'w" where
  "Toggle os c offset w =
     (case Pull os c offset w of
        ((p, Some err), w') \<Rightarrow> (Some err, w')
      | ((p, None), w') \<Rightarrow> SetPull os c offset (if p = 0 then 1 else 0) w')"

section \<open>Simulators (sim.go)\<close>

subsection \<open>Teardown\<close>

text \<open>
  The loops of \<^verbatim>\<open>cleanupConfigfs\<close>: over the hogs and over the names of one bank, and over
  the chips with their index. Every result of \<^verbatim>\<open>os.Remove\<close> is dropped, as in the code.
\<close>

fun cleanupHogs :: "'w os \<Rightarrow> string \<Rightarrow> (int \<times> Hog) list \<Rightarrow> 'w \<Rightarrow> 'w" where
  "cleanupHogs os bankPath [] w = w"
| "cleanupHogs os bankPath ((offset, h) # hs) w =
     (let linePath = Join [bankPath, ''line'' @ itoa offset];
          w1 = snd (os_Remove os (Join [linePath, ''hog'']) w);
          w2 = snd (os_Remove os linePath w1)
      in cleanupHogs os bankPath hs w2)"

fun cleanupNames :: "'w os \<Rightarrow> string \<Rightarrow> (int \<times> string) list \<Rightarrow> 'w \<Rightarrow> 'w" where
  "cleanupNames os bankPath [] w = w"
| "cleanupNames os bankPath ((offset, n) # ns) w =
     (let linePath = Join [bankPath, ''line'' @ itoa offset];
          w1 = snd (os_Remove os linePath w)
      in cleanupNames os bankPath ns w1)"

fun cleanupBanks :: "'w os \<Rightarrow> string \<Rightarrow> nat \<Rightarrow> Chip list \<Rightarrow> 'w \<Rightarrow> 'w" where
  "cleanupBanks os cpath i [] w = w"
| "cleanupBanks os cpath i (c # cs) w =
     (let bankPath = Join [cpath, ''bank'' @ itoa (int i)]
      in case os_Stat os bankPath w of
           (Some err, w1) \<Rightarrow> cleanupBanks os cpath (Suc i) cs w1
         | (None, w1) \<Rightarrow>
             (let w2 = cleanupHogs os bankPath (Hogs (cfg c)) w1;
                  w3 = cleanupNames os bankPath (Names (cfg c)) w2;
                  w4 = snd (os_Remove os bankPath w3)
              in cleanupBanks os cpath (Suc i) cs w4))"

definition cleanupConfigfs :: "'w os \<Rightarrow> Sim \<Rightarrow> 'w \<Rightarrow> error option \<times> 'w" where
  "cleanupConfigfs os s w =
     (case writeAttr os (configfsPath s) ''live'' ''0'' w of
        (Some err, w1) \<Rightarrow> (Some err, w1)
      | (None, w1) \<Rightarrow>
          (let w2 = cleanupBanks os (configfsPath s) 0 (Chips s) w1;
               w3 = snd (os_Remove os (configfsPath s) w2)
           in (None, w3)))"

text \<open>\<^verbatim>\<open>Close\<close> returns nothing; the model returns the sim it has changed and the world.\<close>

definition Close :: "'w os \<Rightarrow> Sim \<Rightarrow> 'w \<Rightarrow> Sim \<times> 'w" where
  "Close os s w =
     (case cleanupConfigfs os s w of
        (err, w1) \<Rightarrow> (s\<lparr>Chips := []\<rparr>, w1))"

subsection \<open>Construction\<close>

definition hogDirectionToString :: "HogDirection \<Rightarrow> string" where
  "hogDirectionToString d =
     (if d = HogDirectionOutputLow then ''output-low''
      else if d = HogDirectionOutputHigh then ''output-high''
      else ''input'')"

fun setupNames :: "'w os \<Rightarrow> string \<Rightarrow> (int \<times> string) list \<Rightarrow> 'w \<Rightarrow> error option \<times> 'w" where
  "setupNames os bankPath [] w = (None, w)"
| "setupNames os bankPath ((offset, n) # ns) w =
     (let linePath = Join [bankPath, ''line'' @ itoa offset]
      in case os_Mkdir os linePath mode0755 w of
           (Some err, w1) \<Rightarrow> (Some err, w1)
         | (None, w1) \<Rightarrow>
             (case writeAttr os linePath ''name'' n w1 of
                (Some err, w2) \<Rightarrow> (Some err, w2)
              | (None, w2) \<Rightarrow> setupNames os bankPath ns w2))"

fun setupHogs :: "'w os \<Rightarrow> string \<Rightarrow> (int \<times> Hog) list \<Rightarrow> 'w \<Rightarrow> error option \<times> 'w" where
  "setupHogs os bankPath [] w = (None, w)"
| "setupHogs os bankPath ((offset, h) # hs) w =
     (let hogPath = Join [bankPath, ''line'' @ itoa offset, ''hog'']
      in case os_MkdirAll os hogPath mode0755 w of
           (Some err, w1) \<Rightarrow> (Some err, w1)
         | (None, w1) \<Rightarrow>
             (case writeAttr os hogPath ''name'' (Consumer h) w1 of
                (Some err, w2) \<Rightarrow> (Some err, w2)
              | (None, w2) \<Rightarrow>
                  (case writeAttr os hogPath ''direction''
                          (hogDirectionToString (Direction h)) w2 of
                     (Some err, w3) \<Rightarrow> (Some err, w3)
                   | (None, w3) \<Rightarrow> setupHogs os bankPath hs w3)))"

fun setupBanks :: "'w os \<Rightarrow> string \<Rightarrow> nat \<Rightarrow> Chip list \<Rightarrow> 'w \<Rightarrow> error option \<times> 'w" where
  "setupBanks os cpath i [] w = (None, w)"
| "setupBanks os cpath i (c # cs) w =
     (let bankPath = Join [cpath, ''bank'' @ itoa (int i)]
      in case os_MkdirAll os bankPath mode0755 w of
           (Some err, w1) \<Rightarrow> (Some err, w1)
         | (None, w1) \<Rightarrow>
       (case writeAttr os bankPath ''label'' (Label (cfg c)) w1 of
           (Some err, w2) \<Rightarrow> (Some err, w2)
         | (None, w2) \<Rightarrow>
       (case writeAttr os bankPath ''num_lines'' (itoa (NumLines (cfg c))) w2 of
           (Some err, w3) \<Rightarrow> (Some err, w3)
         | (None, w3) \<Rightarrow>
       (case setupNames os bankPath (Names (cfg c)) w3 of
           (Some err, w4) \<Rightarrow> (Some err, w4)
         | (None, w4) \<Rightarrow>
       (case setupHogs os bankPath (Hogs (cfg c)) w4 of
           (Some err, w5) \<Rightarrow> (Some err, w5)
         | (None, w5) \<Rightarrow> setupBanks os cpath (Suc i) cs w5)))))"

definition setupConfigfs :: "'w os \<Rightarrow> Sim \<Rightarrow> 'w \<Rightarrow> error option \<times> 'w" where
  "setupConfigfs os s w = setupBanks os (configfsPath s) 0 (Chips s) w"

subsection \<open>Finding configfs and naming the sim\<close>

definition configfsMountPoint :: "'w os \<Rightarrow> 'w \<Rightarrow> (error + string) \<times> 'w" where
  "configfsMountPoint os w =
     (case os_ScanLines os ''/proc/mounts'' w of
        (Inl err, w1) \<Rightarrow> (Inl err, w1)
      | (Inr lines, w1) \<Rightarrow>
          (case find (\<lambda>words. length words \<ge> 6 \<and> words ! 2 = ''configfs'')
                  (map Fields lines) of
             Some words \<Rightarrow> (Inr (words ! 1), w1)
           | None \<Rightarrow>
               (let configfs = ''/sys/kernel/config''
                in case exec_Run os [''mount'', ''-t'', ''configfs'', ''configfs'', configfs] w1 of
                     (None, w2) \<Rightarrow> (Inr configfs, w2)
                   | (Some err, w2) \<Rightarrow>
                       (Inl (New (''can'' @ [CHR 0x27] @ ''t find configfs mountpoint'')), w2))))"

text \<open>
  \<open>checkMountPoints\<close> is the last part of \<^verbatim>\<open>findConfigfsPath\<close>, from the comment
  "check mountpoints in case configfs is mounted somewhere unusual" to the end; the code
  reaches it from two places.
\<close>

definition checkMountPoints :: "'w os \<Rightarrow> 'w \<Rightarrow> (error + string) \<times> 'w" where
  "checkMountPoints os w =
     (case configfsMountPoint os w of
        (Inr mp, w1) \<Rightarrow>
          (let configfs = Join [mp, ''gpio-sim'']
           in case os_Stat os configfs w1 of
                (None, w2) \<Rightarrow> (Inr configfs, w2)
              | (Some err, w2) \<Rightarrow> (Inl (New ''gpio-sim module not loaded''), w2))
      | (Inl err, w1) \<Rightarrow> (Inl (New ''gpio-sim module not loaded''), w1))"

definition findConfigfsPath :: "'w os \<Rightarrow> 'w \<Rightarrow> (error + string) \<times> 'w" where
  "findConfigfsPath os w =
     (let configfs = ''/sys/kernel/config/gpio-sim''
      in case os_Stat os configfs w of
           (None, w1) \<Rightarrow> (Inr configfs, w1)
         | (Some err, w1) \<Rightarrow>
             (case exec_Run os [''modprobe'', ''gpio-sim''] w1 of
                (None, w2) \<Rightarrow>
                  (case os_Stat os configfs w2 of
                     (None, w3) \<Rightarrow> (Inr configfs, w3)
                   | (Some err, w3) \<Rightarrow> checkMountPoints os w3)
              | (Some err, w2) \<Rightarrow> checkMountPoints os w2))"

definition appName :: "'w os \<Rightarrow> string" where
  "appName os = (case os_Executable os of Inl err \<Rightarrow> ''gpiosim'' | Inr str \<Rightarrow> Base str)"

text \<open>
  \<^verbatim>\<open>simCounter\<close> is a 32-bit unsigned counter of the process; \<^verbatim>\<open>atomic.AddUint32\<close>
  returns the new value. \<open>uniqueName\<close> takes the counter and returns it updated.
\<close>

definition uniqueName :: "'w os \<Rightarrow> 32 word \<Rightarrow> string \<times> 32 word" where
  "uniqueName os simCounter =
     (let n = simCounter + 1
      in (appName os @ ''-p'' @ itoa (os_Getpid os) @ ''-'' @ itoa (uint n), n))"

subsection \<open>Going live\<close>

text \<open>
  The last loop of \<^verbatim>\<open>live\<close>, over the indices of \<^verbatim>\<open>s.Chips\<close>. The indices come from
  \<^verbatim>\<open>range s.Chips\<close>, so each is below the length of the list.
\<close>

fun liveChips :: "'w os \<Rightarrow> string \<Rightarrow> nat list \<Rightarrow> Sim \<Rightarrow> 'w \<Rightarrow> (error + Sim) \<times> 'w" where
  "liveChips os dev [] s w = (Inr s, w)"
| "liveChips os dev (i # is) s w =
     (let bankPath = Join [configfsPath s, ''bank'' @ itoa (int i)]
      in case readAttr os bankPath ''chip_name'' w of
           (Inl err, w1) \<Rightarrow> (Inl err, snd (Close os s w1))
         | (Inr chip, w1) \<Rightarrow>
             (let s1 = s\<lparr>Chips := (Chips s)[i := (Chips s ! i)\<lparr>devName := dev, chipName := chip\<rparr>]\<rparr>;
                  devP = Join [''/dev'', chip]
              in case os_Lstat os devP w1 of
                   (Inl err, w2) \<Rightarrow> (Inl err, w2)
                 | (Inr mode, w2) \<Rightarrow>
                     (if mode AND ModeSymlink \<noteq> 0
                      then (Inl (New (''A symlink ('' @ devP @ '') is masking GPIO device '' @ chip)), w2)
                      else
                        (let s2 = s1\<lparr>Chips := (Chips s1)[i := (Chips s1 ! i)
                                     \<lparr>devPath := devP,
                                      sysfsPath := Join [''/sys/devices/platform'', dev, chip]\<rparr>]\<rparr>
                         in liveChips os dev is s2 w2))))"

text \<open>
  The state of \<^verbatim>\<open>live\<close> is the counter \<^verbatim>\<open>simCounter\<close> and the world. A failed call
  returns \<^verbatim>\<open>nil\<close> and the error, here \<open>Inl\<close> of the error.
\<close>

definition live :: "'w os \<Rightarrow> builder \<Rightarrow> 32 word \<times> 'w \<Rightarrow> (error + Sim) \<times> 32 word \<times> 'w" where
  "live os b st =
     (case st of (counter, w) \<Rightarrow>
      if length (banks b) = 0 then (Inl (New ''no banks defined''), (counter, w))
      else
        (case (if length (name b) = 0 then uniqueName os counter else (name b, counter)) of
           (nm, counter1) \<Rightarrow>
        (case findConfigfsPath os w of
           (Inl err, w1) \<Rightarrow> (Inl err, (counter1, w1))
         | (Inr root, w1) \<Rightarrow>
        (let cpath = Join [root, nm]
         in case os_Stat os cpath w1 of
           (None, w2) \<Rightarrow>
             (Inl (New (''sim with name '' @ [CHR 0x27] @ nm @ [CHR 0x27] @ '' already exists'')),
              (counter1, w2))
         | (Some err, w2) \<Rightarrow>
        (let s = \<lparr>Name = nm,
                  Chips = map (\<lambda>k. \<lparr>bankConfigfsPath = [], devPath = [], chipName = [],
                                     devName = [], sysfsPath = [], cfg = k\<rparr>) (banks b),
                  configfsPath = cpath\<rparr>
         in case (case setupConfigfs os s w2 of
                    (None, w3) \<Rightarrow> writeAttr os (configfsPath s) ''live'' ''1'' w3
                  | (Some err, w3) \<Rightarrow> (Some err, w3)) of
           (Some err, w4) \<Rightarrow> (Inl err, (counter1, snd (Close os s w4)))
         | (None, w4) \<Rightarrow>
        (case readAttr os (configfsPath s) ''dev_name'' w4 of
           (Inl err, w5) \<Rightarrow> (Inl err, (counter1, snd (Close os s w5)))
         | (Inr dev, w5) \<Rightarrow>
        (case liveChips os dev [0..<length (Chips s)] s w5 of
           (r, w6) \<Rightarrow> (r, (counter1, w6)))))))))"

subsection \<open>Options (options.go, bank.go)\<close>

datatype NewSimOption = WithName string | WithBank Bank

fun applySimOption :: "NewSimOption \<Rightarrow> builder \<Rightarrow> builder" where
  "applySimOption (WithName n) b = b\<lparr>name := n\<rparr>"
| "applySimOption (WithBank k) b = b\<lparr>banks := banks b @ [k]\<rparr>"

datatype NewBankOption = WithNamedLine int string | WithHoggedLine int string HogDirection

fun applyBankOption :: "NewBankOption \<Rightarrow> Bank \<Rightarrow> Bank" where
  "applyBankOption (WithNamedLine offset n) b = b\<lparr>Names := AList.update offset n (Names b)\<rparr>"
| "applyBankOption (WithHoggedLine offset consumer direction) b =
     b\<lparr>Hogs := AList.update offset \<lparr>Consumer = consumer, Direction = direction\<rparr> (Hogs b)\<rparr>"

definition NewBank :: "string \<Rightarrow> int \<Rightarrow> NewBankOption list \<Rightarrow> Bank" where
  "NewBank label numLines options =
     foldl (\<lambda>b opt. applyBankOption opt b)
       \<lparr>NumLines = numLines, Label = label, Names = [], Hogs = []\<rparr> options"

definition NewSim :: "'w os \<Rightarrow> NewSimOption list \<Rightarrow> 32 word \<times> 'w \<Rightarrow> (error + Sim) \<times> 32 word \<times> 'w" where
  "NewSim os options st =
     live os (foldl (\<lambda>b opt. applySimOption opt b) \<lparr>name = [], banks = []\<rparr> options) st"

section \<open>Recording the calls made to the operating system\<close>

text \<open>
  To say which calls a function makes, and in which order, any operating system
  \<open>os\<close> is wrapped into \<open>logged os\<close>: it behaves as \<open>os\<close> on the first component
  of its state and appends each call it receives to the second.
\<close>

datatype call =
    ReadFile string
  | WriteFile string string nat
  | Stat string
  | Lstat string
  | Mkdir string nat
  | MkdirAll string nat
  | Remove string
  | ScanLines string
  | Run "string list"

definition logged :: "'w os \<Rightarrow> ('w \<times> call list) os" where
  "logged os =
     \<lparr>os_ReadFile = (\<lambda>p (w, tr). case os_ReadFile os p w of (r, w') \<Rightarrow> (r, (w', tr @ [ReadFile p]))),
      os_WriteFile = (\<lambda>p d m (w, tr).
         case os_WriteFile os p d m w of (r, w') \<Rightarrow> (r, (w', tr @ [WriteFile p d m]))),
      os_Stat = (\<lambda>p (w, tr). case os_Stat os p w of (r, w') \<Rightarrow> (r, (w', tr @ [Stat p]))),
      os_Lstat = (\<lambda>p (w, tr). case os_Lstat os p w of (r, w') \<Rightarrow> (r, (w', tr @ [Lstat p]))),
      os_Mkdir = (\<lambda>p m (w, tr). case os_Mkdir os p m w of (r, w') \<Rightarrow> (r, (w', tr @ [Mkdir p m]))),
      os_MkdirAll = (\<lambda>p m (w, tr).
         case os_MkdirAll os p m w of (r, w') \<Rightarrow> (r, (w', tr @ [MkdirAll p m]))),
      os_Remove = (\<lambda>p (w, tr). case os_Remove os p w of (r, w') \<Rightarrow> (r, (w', tr @ [Remove p]))),
      os_ScanLines = (\<lambda>p (w, tr).
         case os_ScanLines os p w of (r, w') \<Rightarrow> (r, (w', tr @ [ScanLines p]))),
      exec_Run = (\<lambda>args (w, tr). case exec_Run os args w of (r, w') \<Rightarrow> (r, (w', tr @ [Run args]))),
      os_Executable = os_Executable os,
      os_Getpid = os_Getpid os\<rparr>"

text \<open>The calls that create, write or remove something in the file system.\<close>

fun mutates :: "call \<Rightarrow> bool" where
  "mutates (WriteFile p d m) = True"
| "mutates (Mkdir p m) = True"
| "mutates (MkdirAll p m) = True"
| "mutates (Remove p) = True"
| "mutates c = False"

section \<open>A small file system in memory\<close>

text \<open>
  One operating system to run the model on: directories, files with their content,
  symbolic links, the paths whose writes the kernel refuses, and the files the kernel
  publishes when \<^verbatim>\<open>1\<close> is written to an attribute \<^verbatim>\<open>live\<close> (the device name, the chip
  names, the device nodes). As in configfs, the attribute files of a directory go with
  the directory when it is removed, and a directory is removed only when it has no
  subdirectory.
\<close>

record memfs =
  dirs :: "string list"
  files :: "(string \<times> string) list"
  symlinks :: "string list"
  refused :: "string list"
  published :: "(string \<times> string) list"

definition enoent :: "string \<Rightarrow> error" where
  "enoent p = OSError (p @ '': no such file or directory'')"

definition parent :: "string \<Rightarrow> string" where
  "parent p = Join [p, ''..'']"

definition present :: "memfs \<Rightarrow> string \<Rightarrow> bool" where
  "present w p \<longleftrightarrow> p \<in> set (dirs w) \<or> p \<in> set (map fst (files w)) \<or> p \<in> set (symlinks w)"

definition mem_ReadFile :: "string \<Rightarrow> memfs \<Rightarrow> (error + string) \<times> memfs" where
  "mem_ReadFile p w =
     (case map_of (files w) p of
        Some d \<Rightarrow> (Inr d, w)
      | None \<Rightarrow> (Inl (enoent p), w))"

definition mem_WriteFile :: "string \<Rightarrow> string \<Rightarrow> nat \<Rightarrow> memfs \<Rightarrow> error option \<times> memfs" where
  "mem_WriteFile p d m w =
     (if p \<in> set (refused w) then (Some (OSError (p @ '': operation not permitted'')), w)
      else if parent p \<notin> set (dirs w) then (Some (enoent p), w)
      else (None, w\<lparr>files := AList.update p d
                     ((if Base p = ''live'' \<and> d = ''1'' then published w else []) @ files w)\<rparr>))"

definition mem_Stat :: "string \<Rightarrow> memfs \<Rightarrow> error option \<times> memfs" where
  "mem_Stat p w = (if present w p then (None, w) else (Some (enoent p), w))"

definition mem_Lstat :: "string \<Rightarrow> memfs \<Rightarrow> (error + 32 word) \<times> memfs" where
  "mem_Lstat p w =
     (if p \<in> set (symlinks w) then (Inr (ModeSymlink OR 511), w)
      else if p \<in> set (dirs w) then (Inr (push_bit 31 1 OR 493), w)
      else if p \<in> set (map fst (files w)) then (Inr 420, w)
      else (Inl (enoent p), w))"

definition mem_Mkdir :: "string \<Rightarrow> nat \<Rightarrow> memfs \<Rightarrow> error option \<times> memfs" where
  "mem_Mkdir p m w =
     (if present w p then (Some (OSError (p @ '': file exists'')), w)
      else if parent p \<notin> set (dirs w) then (Some (enoent p), w)
      else (None, w\<lparr>dirs := p # dirs w\<rparr>))"

definition ancestors :: "string \<Rightarrow> string list" where
  "ancestors p =
     (let elems = filter (\<lambda>e. e \<noteq> []) (splitOn CHR ''/'' p)
      in map (\<lambda>k. ''/'' @ joinWith ''/'' (take k elems)) [1..<Suc (length elems)])"

definition mem_MkdirAll :: "string \<Rightarrow> nat \<Rightarrow> memfs \<Rightarrow> error option \<times> memfs" where
  "mem_MkdirAll p m w =
     (if \<exists>q \<in> set (ancestors p). q \<in> set (map fst (files w)) \<or> q \<in> set (symlinks w)
      then (Some (OSError (p @ '': not a directory'')), w)
      else (None, w\<lparr>dirs := filter (\<lambda>q. q \<notin> set (dirs w)) (rev (ancestors p)) @ dirs w\<rparr>))"

definition mem_Remove :: "string \<Rightarrow> memfs \<Rightarrow> error option \<times> memfs" where
  "mem_Remove p w =
     (if p \<in> set (map fst (files w)) then (None, w\<lparr>files := AList.delete p (files w)\<rparr>)
      else if p \<in> set (symlinks w) then (None, w\<lparr>symlinks := removeAll p (symlinks w)\<rparr>)
      else if p \<in> set (dirs w) then
        (if \<exists>q \<in> set (dirs w). q \<noteq> p \<and> parent q = p
         then (Some (OSError (p @ '': directory not empty'')), w)
         else (None, w\<lparr>dirs := removeAll p (dirs w),
                       files := filter (\<lambda>(q, d). parent q \<noteq> p) (files w)\<rparr>))
      else (Some (enoent p), w))"

definition mem_ScanLines :: "string \<Rightarrow> memfs \<Rightarrow> (error + string list) \<times> memfs" where
  "mem_ScanLines p w =
     (case map_of (files w) p of
        None \<Rightarrow> (Inl (enoent p), w)
      | Some d \<Rightarrow>
          (let ls = splitOn CHR 0x0A d
           in (Inr (if last ls = [] then butlast ls else ls), w)))"

definition mem_Run :: "string list \<Rightarrow> memfs \<Rightarrow> error option \<times> memfs" where
  "mem_Run args w = (Some (OSError (''exec: '' @ hd args @ '': executable file not found'')), w)"

definition mem_os :: "memfs os" where
  "mem_os =
     \<lparr>os_ReadFile = mem_ReadFile,
      os_WriteFile = mem_WriteFile,
      os_Stat = mem_Stat,
      os_Lstat = mem_Lstat,
      os_Mkdir = mem_Mkdir,
      os_MkdirAll = mem_MkdirAll,
      os_Remove = mem_Remove,
      os_ScanLines = mem_ScanLines,
      exec_Run = mem_Run,
      os_Executable = Inr ''/usr/local/bin/gpiosim.test'',
      os_Getpid = 4242\<rparr>"

section \<open>The calls the specification expects\<close>

text \<open>
  The calls the specification lists for one named line and for one hogged line of a bank
  (activation, step 5), and for the teardown of a bank that still exists (teardown,
  step 2). The theorems compare the calls the code makes with these.
\<close>

definition nameCalls :: "string \<Rightarrow> int \<times> string \<Rightarrow> call list" where
  "nameCalls bankPath e =
     (let linePath = Join [bankPath, ''line'' @ itoa (fst e)]
      in [Mkdir linePath mode0755, WriteFile (Join [linePath, ''name'']) (snd e) mode0666])"

definition hogCalls :: "string \<Rightarrow> int \<times> Hog \<Rightarrow> call list" where
  "hogCalls bankPath e =
     (let hogPath = Join [bankPath, ''line'' @ itoa (fst e), ''hog'']
      in [MkdirAll hogPath mode0755,
          WriteFile (Join [hogPath, ''name'']) (Consumer (snd e)) mode0666,
          WriteFile (Join [hogPath, ''direction''])
            (if Direction (snd e) = HogDirectionOutputLow then ''output-low''
             else if Direction (snd e) = HogDirectionOutputHigh then ''output-high''
             else ''input'') mode0666])"

definition bankCalls :: "string \<Rightarrow> nat \<Rightarrow> Bank \<Rightarrow> call list" where
  "bankCalls cpath i k =
     (let bankPath = Join [cpath, ''bank'' @ itoa (int i)]
      in [MkdirAll bankPath mode0755,
          WriteFile (Join [bankPath, ''label'']) (Label k) mode0666,
          WriteFile (Join [bankPath, ''num_lines'']) (itoa (NumLines k)) mode0666]
         @ concat (map (nameCalls bankPath) (Names k))
         @ concat (map (hogCalls bankPath) (Hogs k)))"

fun banksCalls :: "string \<Rightarrow> nat \<Rightarrow> Bank list \<Rightarrow> call list" where
  "banksCalls cpath i [] = []"
| "banksCalls cpath i (k # ks) = bankCalls cpath i k @ banksCalls cpath (Suc i) ks"

definition bankRemovals :: "string \<Rightarrow> Bank \<Rightarrow> call list" where
  "bankRemovals bankPath k =
     concat (map (\<lambda>e. [Remove (Join [Join [bankPath, ''line'' @ itoa (fst e)], ''hog'']),
                        Remove (Join [bankPath, ''line'' @ itoa (fst e)])]) (Hogs k))
     @ map (\<lambda>e. Remove (Join [bankPath, ''line'' @ itoa (fst e)])) (Names k)
     @ [Remove bankPath]"

text \<open>The banks among the options of \<^verbatim>\<open>NewSim\<close>, in the order they were given.\<close>

fun banksOf :: "NewSimOption list \<Rightarrow> Bank list" where
  "banksOf [] = []"
| "banksOf (WithBank k # opts) = k # banksOf opts"
| "banksOf (WithName n # opts) = banksOf opts"

section \<open>Example inputs\<close>

text \<open>
  A machine with the gpio-sim directory of configfs in its usual place, whose kernel
  will publish the device name \<^verbatim>\<open>gpio-sim.0\<close> and the chip \<^verbatim>\<open>gpiochip0\<close> for a sim
  called \<^verbatim>\<open>s\<close>; and a bank of eight lines with one named and one hogged line.
\<close>

definition ex_world :: memfs where
  "ex_world =
     \<lparr>dirs = [''/sys/kernel/config/gpio-sim'', ''/sys/kernel/config'', ''/sys/kernel'',
              ''/sys'', ''/dev'', ''/''],
      files = [],
      symlinks = [],
      refused = [],
      published = [(''/sys/kernel/config/gpio-sim/s/dev_name'', ''gpio-sim.0\<newline>''),
                   (''/sys/kernel/config/gpio-sim/s/bank0/chip_name'', ''gpiochip0\<newline>''),
                   (''/dev/gpiochip0'', [])]\<rparr>"

definition ex_bank :: Bank where
  "ex_bank = NewBank ''left'' 8
     [WithNamedLine 3 ''LED0'', WithHoggedLine 2 ''piggy'' HogDirectionOutputLow]"

text \<open>The same machine, where \<^verbatim>\<open>/dev/gpiochip0\<close> is a symbolic link.\<close>

definition ex_masked :: memfs where
  "ex_masked = ex_world\<lparr>symlinks := [''/dev/gpiochip0'']\<rparr>"

text \<open>The same machine, where the kernel does not publish the device name.\<close>

definition ex_nameless :: memfs where
  "ex_nameless = ex_world\<lparr>published := []\<rparr>"

text \<open>The sim \<^verbatim>\<open>s\<close> as \<^verbatim>\<open>live\<close> builds it before it calls \<^verbatim>\<open>setupConfigfs\<close>.\<close>

definition ex_sim :: Sim where
  "ex_sim =
     \<lparr>Name = ''s'',
      Chips = [\<lparr>bankConfigfsPath = [], devPath = [], chipName = [], devName = [],
                sysfsPath = [], cfg = ex_bank\<rparr>],
      configfsPath = ''/sys/kernel/config/gpio-sim/s''\<rparr>"

text \<open>
  The machine with the tree of \<^verbatim>\<open>s\<close> built but not live, where the kernel refuses
  writes to the attribute \<^verbatim>\<open>live\<close> of \<^verbatim>\<open>s\<close>.
\<close>

definition ex_refusing :: memfs where
  "ex_refusing =
     \<lparr>dirs = [''/sys/kernel/config/gpio-sim/s/bank0/line2/hog'',
              ''/sys/kernel/config/gpio-sim/s/bank0/line2'',
              ''/sys/kernel/config/gpio-sim/s/bank0/line3'',
              ''/sys/kernel/config/gpio-sim/s/bank0'',
              ''/sys/kernel/config/gpio-sim/s'',
              ''/sys/kernel/config/gpio-sim'', ''/sys/kernel/config'', ''/sys/kernel'',
              ''/sys'', ''/dev'', ''/''],
      files = [(''/sys/kernel/config/gpio-sim/s/live'', ''0'')],
      symlinks = [],
      refused = [''/sys/kernel/config/gpio-sim/s/live''],
      published = []\<rparr>"

text \<open>
  The machine before the sim \<^verbatim>\<open>s\<close> is built, where the kernel refuses every write to
  the attribute \<^verbatim>\<open>live\<close> of \<^verbatim>\<open>s\<close>: the sim cannot go live, and it cannot be set to
  \<^verbatim>\<open>0\<close> either.
\<close>

definition ex_unwilling :: memfs where
  "ex_unwilling = ex_world\<lparr>refused := [''/sys/kernel/config/gpio-sim/s/live'']\<rparr>"

text \<open>A live chip and the sysfs directory of its line 3.\<close>

definition ex_chip :: Chip where
  "ex_chip =
     \<lparr>bankConfigfsPath = [], devPath = ''/dev/gpiochip0'', chipName = ''gpiochip0'',
      devName = ''gpio-sim.0'', sysfsPath = ''/sys/devices/platform/gpio-sim.0/gpiochip0'',
      cfg = ex_bank\<rparr>"

definition ex_lines :: "string \<Rightarrow> memfs" where
  "ex_lines pull =
     \<lparr>dirs = [''/sys/devices/platform/gpio-sim.0/gpiochip0/sim_gpio3''],
      files = [(''/sys/devices/platform/gpio-sim.0/gpiochip0/sim_gpio3/pull'', pull)],
      symlinks = [],
      refused = [],
      published = []\<rparr>"

section \<open>Properties of the recording wrapper\<close>

lemma logged_simps [simp]:
  "os_ReadFile (logged os) p (w, tr)
     = (case os_ReadFile os p w of (r, w') \<Rightarrow> (r, (w', tr @ [ReadFile p])))"
  "os_WriteFile (logged os) p d m (w, tr)
     = (case os_WriteFile os p d m w of (r, w') \<Rightarrow> (r, (w', tr @ [WriteFile p d m])))"
  "os_Stat (logged os) p (w, tr)
     = (case os_Stat os p w of (r, w') \<Rightarrow> (r, (w', tr @ [Stat p])))"
  "os_Lstat (logged os) p (w, tr)
     = (case os_Lstat os p w of (r, w') \<Rightarrow> (r, (w', tr @ [Lstat p])))"
  "os_Mkdir (logged os) p m (w, tr)
     = (case os_Mkdir os p m w of (r, w') \<Rightarrow> (r, (w', tr @ [Mkdir p m])))"
  "os_MkdirAll (logged os) p m (w, tr)
     = (case os_MkdirAll os p m w of (r, w') \<Rightarrow> (r, (w', tr @ [MkdirAll p m])))"
  "os_Remove (logged os) p (w, tr)
     = (case os_Remove os p w of (r, w') \<Rightarrow> (r, (w', tr @ [Remove p])))"
  "os_ScanLines (logged os) p (w, tr)
     = (case os_ScanLines os p w of (r, w') \<Rightarrow> (r, (w', tr @ [ScanLines p])))"
  "exec_Run (logged os) args (w, tr)
     = (case exec_Run os args w of (r, w') \<Rightarrow> (r, (w', tr @ [Run args])))"
  "os_Executable (logged os) = os_Executable os"
  "os_Getpid (logged os) = os_Getpid os"
  by (simp_all add: logged_def)

section \<open>Line control\<close>

text \<open>
  C10. \<^verbatim>\<open>SetPull(offset, level)\<close> is one write to the attribute \<^verbatim>\<open>pull\<close> of the line; the
  text written is \<^verbatim>\<open>pull-up\<close> when \<open>level\<close> is 1 and \<^verbatim>\<open>pull-down\<close> for every other
  integer. The result of \<^verbatim>\<open>SetPull\<close> is the result of that write: it adds no error for
  a level outside 0 and 1. On any operating system the write is the only call made.
\<close>

theorem SetPull_writes:
  "SetPull os c offset level w =
     os_WriteFile os (Join [Join [sysfsPath c, ''sim_gpio'' @ itoa offset], ''pull''])
       (if level = 1 then ''pull-up'' else ''pull-down'') mode0666 w
   \<and> snd (snd (SetPull (logged os) c offset level (w, []))) =
       [WriteFile (Join [Join [sysfsPath c, ''sim_gpio'' @ itoa offset], ''pull''])
          (if level = 1 then ''pull-up'' else ''pull-down'') mode0666]"
  by (simp add: SetPull_def setAttr_def writeAttr_def LevelActive_def Let_def split: prod.splits)

text \<open>
  C6. When the attribute \<^verbatim>\<open>pull\<close> of the line is read with content \<open>d\<close>, the attribute
  text is \<open>TrimSpace d\<close>, and \<^verbatim>\<open>Pull\<close> returns \<^verbatim>\<open>LevelInactive\<close> without error for the text
  \<^verbatim>\<open>pull-down\<close>, \<^verbatim>\<open>LevelActive\<close> without error for \<^verbatim>\<open>pull-up\<close>, and for any other text
  the error "unexpected pull value: " followed by the text.
\<close>

theorem Pull_maps_text:
  assumes "os_ReadFile os (Join [Join [sysfsPath c, ''sim_gpio'' @ itoa offset], ''pull'']) w
             = (Inr d, w')"
  shows "Pull os c offset w =
     (if TrimSpace d = ''pull-down'' then ((LevelInactive, None), w')
      else if TrimSpace d = ''pull-up'' then ((LevelActive, None), w')
      else ((LevelInactive, Some (New (''unexpected pull value: '' @ TrimSpace d))), w'))"
  using assms by (simp add: Pull_def attr_def readAttr_def)

theorem Pull_maps_text_witness:
  "Pull mem_os ex_chip 3 (ex_lines ''pull-up\<newline>'') = ((1, None), ex_lines ''pull-up\<newline>'')
   \<and> Pull mem_os ex_chip 3 (ex_lines ''pull-down'') = ((0, None), ex_lines ''pull-down'')
   \<and> Pull mem_os ex_chip 3 (ex_lines ''high'') =
     ((0, Some (New ''unexpected pull value: high'')), ex_lines ''high'')"
proof -
  have p: "Join [Join [sysfsPath ex_chip, ''sim_gpio'' @ itoa 3], ''pull'']
           = ''/sys/devices/platform/gpio-sim.0/gpiochip0/sim_gpio3/pull''"
    by code_simp
  have r: "os_ReadFile mem_os (Join [Join [sysfsPath ex_chip, ''sim_gpio'' @ itoa 3], ''pull''])
             (ex_lines d) = (Inr d, ex_lines d)" for d
    unfolding p by (simp add: mem_os_def mem_ReadFile_def ex_lines_def)
  have t: "TrimSpace ''pull-up\<newline>'' = ''pull-up''" "TrimSpace ''pull-down'' = ''pull-down''"
    "TrimSpace ''high'' = ''high''"
    by code_simp+
  show ?thesis
    using Pull_maps_text [OF r, of "''pull-up\<newline>''"]
      Pull_maps_text [OF r, of "''pull-down''"] Pull_maps_text [OF r, of "''high''"]
    by (simp add: t LevelActive_def LevelInactive_def)
qed

text \<open>
  C5. Let the attribute \<^verbatim>\<open>pull\<close> of the line behave as plain storage: after a write that
  succeeded, a read returns what was written. Then a successful \<^verbatim>\<open>SetPull(offset, 1)\<close>
  followed by \<^verbatim>\<open>Pull(offset)\<close> returns \<^verbatim>\<open>LevelActive\<close>, and a successful
  \<^verbatim>\<open>SetPull(offset, 0)\<close> followed by \<^verbatim>\<open>Pull(offset)\<close> returns \<^verbatim>\<open>LevelInactive\<close>.
  After a successful \<^verbatim>\<open>SetPull(offset, 1)\<close> and a successful \<^verbatim>\<open>Toggle(offset)\<close>,
  \<^verbatim>\<open>Pull(offset)\<close> returns \<^verbatim>\<open>LevelInactive\<close>; after a successful
  \<^verbatim>\<open>SetPull(offset, 0)\<close> and a successful \<^verbatim>\<open>Toggle(offset)\<close> it returns
  \<^verbatim>\<open>LevelActive\<close>; each time without error.

  \<^verbatim>\<open>Toggle\<close> reads the current pull and writes its inverse, on every operating system
  (plain storage or not): it makes one read of the attribute \<^verbatim>\<open>pull\<close>; when the text
  read is \<^verbatim>\<open>pull-up\<close> it then makes one write of \<^verbatim>\<open>pull-down\<close>, when the text is
  \<^verbatim>\<open>pull-down\<close> one write of \<^verbatim>\<open>pull-up\<close>, and its result is the result of that
  write; for any other text, or when the read fails, it writes nothing and returns the
  error of \<^verbatim>\<open>Pull\<close>.
\<close>

theorem pull_round_trip:
  assumes storage:
    "\<forall>v w w'. os_WriteFile os (Join [Join [sysfsPath c, ''sim_gpio'' @ itoa offset], ''pull''])
                  v mode0666 w = (None, w')
      \<longrightarrow> fst (os_ReadFile os (Join [Join [sysfsPath c, ''sim_gpio'' @ itoa offset], ''pull'']) w')
            = Inr v"
  shows "(SetPull os c offset LevelActive w = (None, w1)
            \<longrightarrow> fst (Pull os c offset w1) = (LevelActive, None))
       \<and> (SetPull os c offset LevelInactive w = (None, w1)
            \<longrightarrow> fst (Pull os c offset w1) = (LevelInactive, None))
       \<and> (SetPull os c offset LevelActive w = (None, w1) \<and> Toggle os c offset w1 = (None, w2)
            \<longrightarrow> fst (Pull os c offset w2) = (LevelInactive, None))
       \<and> (SetPull os c offset LevelInactive w = (None, w1) \<and> Toggle os c offset w1 = (None, w2)
            \<longrightarrow> fst (Pull os c offset w2) = (LevelActive, None))
       \<and> (\<forall>os' :: 'w os. \<forall>u d u'.
            os_ReadFile os' (Join [Join [sysfsPath c, ''sim_gpio'' @ itoa offset], ''pull'']) u
              = (Inr d, u')
            \<longrightarrow> Toggle os' c offset u =
                 (if TrimSpace d = ''pull-down''
                  then os_WriteFile os' (Join [Join [sysfsPath c, ''sim_gpio'' @ itoa offset], ''pull''])
                         ''pull-up'' mode0666 u'
                  else if TrimSpace d = ''pull-up''
                  then os_WriteFile os' (Join [Join [sysfsPath c, ''sim_gpio'' @ itoa offset], ''pull''])
                         ''pull-down'' mode0666 u'
                  else (Some (New (''unexpected pull value: '' @ TrimSpace d)), u')))
       \<and> (\<forall>os' :: 'w os. \<forall>u e u'.
            os_ReadFile os' (Join [Join [sysfsPath c, ''sim_gpio'' @ itoa offset], ''pull'']) u
              = (Inl e, u')
            \<longrightarrow> Toggle os' c offset u = (Some e, u'))
       \<and> (\<forall>os' :: 'w os. \<forall>d u u'.
            os_ReadFile os' (Join [Join [sysfsPath c, ''sim_gpio'' @ itoa offset], ''pull'']) u
              = (Inr d, u') \<and> (TrimSpace d = ''pull-down'' \<or> TrimSpace d = ''pull-up'')
            \<longrightarrow> snd (snd (Toggle (logged os') c offset (u, []))) =
                 [ReadFile (Join [Join [sysfsPath c, ''sim_gpio'' @ itoa offset], ''pull'']),
                  WriteFile (Join [Join [sysfsPath c, ''sim_gpio'' @ itoa offset], ''pull''])
                    (if TrimSpace d = ''pull-down'' then ''pull-up'' else ''pull-down'') mode0666])"
proof -
  let ?p = "Join [Join [sysfsPath c, ''sim_gpio'' @ itoa offset], ''pull'']"
  have up: "TrimSpace ''pull-up'' = ''pull-up''"
    and down: "TrimSpace ''pull-down'' = ''pull-down''"
    by code_simp+
  have ne: "''pull-down'' \<noteq> ''pull-up''" by simp
  have rd: "fst (Pull os c offset w') = (if v = ''pull-up'' then LevelActive else LevelInactive, None)"
    if "os_WriteFile os ?p v mode0666 w0 = (None, w')" and "v = ''pull-up'' \<or> v = ''pull-down''"
    for v w0 w'
  proof -
    from storage that(1) have "fst (os_ReadFile os ?p w') = Inr v" by blast
    with that(2) show ?thesis
      by (auto simp: Pull_def attr_def readAttr_def up down split: prod.splits sum.splits)
  qed
  have a: "fst (Pull os c offset w1) = (LevelActive, None)"
    if "SetPull os c offset LevelActive w = (None, w1)"
    using that rd [of "''pull-up''" w w1]
    by (simp add: SetPull_def setAttr_def writeAttr_def)
  have b: "fst (Pull os c offset w1) = (LevelInactive, None)"
    if "SetPull os c offset LevelInactive w = (None, w1)"
    using that rd [of "''pull-down''" w w1]
    by (simp add: SetPull_def setAttr_def writeAttr_def LevelActive_def LevelInactive_def)
  have t: "fst (Pull os c offset w2) = (LevelInactive, None)"
    if s: "SetPull os c offset LevelActive w = (None, w1)"
      and t: "Toggle os c offset w1 = (None, w2)"
  proof -
    obtain wr where p: "Pull os c offset w1 = ((LevelActive, None), wr)"
      using a [OF s] by (cases "Pull os c offset w1") auto
    with t have "SetPull os c offset 0 wr = (None, w2)"
      by (simp add: Toggle_def LevelActive_def)
    then have "os_WriteFile os ?p ''pull-down'' mode0666 wr = (None, w2)"
      by (simp add: SetPull_def setAttr_def writeAttr_def LevelActive_def)
    from rd [OF this] show ?thesis by simp
  qed
  have t': "fst (Pull os c offset w2) = (LevelActive, None)"
    if s: "SetPull os c offset LevelInactive w = (None, w1)"
      and t: "Toggle os c offset w1 = (None, w2)"
  proof -
    obtain wr where p: "Pull os c offset w1 = ((LevelInactive, None), wr)"
      using b [OF s] by (cases "Pull os c offset w1") auto
    with t have "SetPull os c offset 1 wr = (None, w2)"
      by (simp add: Toggle_def LevelInactive_def)
    then have "os_WriteFile os ?p ''pull-up'' mode0666 wr = (None, w2)"
      by (simp add: SetPull_def setAttr_def writeAttr_def LevelActive_def)
    from rd [OF this] show ?thesis by simp
  qed
  have g: "Toggle os' c offset u =
             (if TrimSpace d = ''pull-down'' then os_WriteFile os' ?p ''pull-up'' mode0666 u'
              else if TrimSpace d = ''pull-up'' then os_WriteFile os' ?p ''pull-down'' mode0666 u'
              else (Some (New (''unexpected pull value: '' @ TrimSpace d)), u'))"
    if "os_ReadFile os' ?p u = (Inr d, u')" for os' :: "'x os" and u d u'
    using that
    by (simp add: Toggle_def Pull_def attr_def readAttr_def SetPull_def setAttr_def writeAttr_def
        LevelActive_def LevelInactive_def)
  have h: "Toggle os' c offset u = (Some e, u')"
    if "os_ReadFile os' ?p u = (Inl e, u')" for os' :: "'x os" and u e u'
    using that by (simp add: Toggle_def Pull_def attr_def readAttr_def)
  have l: "snd (snd (Toggle (logged os') c offset (u, []))) =
             [ReadFile ?p, WriteFile ?p (if TrimSpace d = ''pull-down'' then ''pull-up''
                                         else ''pull-down'') mode0666]"
    if "os_ReadFile os' ?p u = (Inr d, u')" and "TrimSpace d = ''pull-down'' \<or> TrimSpace d = ''pull-up''"
    for os' :: "'w os" and d u u'
  proof -
    from that(1) have "os_ReadFile (logged os') ?p (u, []) = (Inr d, (u', [ReadFile ?p]))"
      by simp
    from g [OF this] that(2) show ?thesis
      by (auto split: prod.splits)
  qed
  from a b t t' g h l show ?thesis by blast
qed

lemma mem_os_storage:
  "mem_WriteFile p v m w = (None, w') \<Longrightarrow> fst (mem_ReadFile p w') = Inr v"
  by (auto simp: mem_WriteFile_def mem_ReadFile_def update_conv' split: if_splits)

theorem pull_round_trip_witness:
  "fst (Pull mem_os ex_chip 3 (snd (SetPull mem_os ex_chip 3 LevelActive (ex_lines ''pull-down''))))
     = (LevelActive, None)
   \<and> fst (Pull mem_os ex_chip 3 (snd (SetPull mem_os ex_chip 3 LevelInactive (ex_lines ''pull-up''))))
     = (LevelInactive, None)
   \<and> fst (Pull mem_os ex_chip 3
        (snd (Toggle mem_os ex_chip 3
           (snd (SetPull mem_os ex_chip 3 LevelActive (ex_lines ''pull-down''))))))
     = (LevelInactive, None)
   \<and> fst (Pull mem_os ex_chip 3
        (snd (Toggle mem_os ex_chip 3
           (snd (SetPull mem_os ex_chip 3 LevelInactive (ex_lines ''pull-up''))))))
     = (LevelActive, None)
   \<and> snd (snd (Toggle (logged mem_os) ex_chip 3 (ex_lines ''pull-down\<newline>'', [])))
     = [ReadFile (Join [Join [sysfsPath ex_chip, ''sim_gpio'' @ itoa 3], ''pull'']),
        WriteFile (Join [Join [sysfsPath ex_chip, ''sim_gpio'' @ itoa 3], ''pull''])
          ''pull-up'' mode0666]
   \<and> snd (snd (Toggle (logged mem_os) ex_chip 3 (ex_lines ''pull-up\<newline>'', [])))
     = [ReadFile (Join [Join [sysfsPath ex_chip, ''sim_gpio'' @ itoa 3], ''pull'']),
        WriteFile (Join [Join [sysfsPath ex_chip, ''sim_gpio'' @ itoa 3], ''pull''])
          ''pull-down'' mode0666]"
proof -
  let ?w = "ex_lines ''pull-down''" and ?v = "ex_lines ''pull-up''"
  let ?p = "Join [Join [sysfsPath ex_chip, ''sim_gpio'' @ itoa 3], ''pull'']"
  have st: "\<forall>v w w'. os_WriteFile mem_os ?p v mode0666 w = (None, w')
              \<longrightarrow> fst (os_ReadFile mem_os ?p w') = Inr v"
    by (simp add: mem_os_def mem_os_storage)
  have s1: "SetPull mem_os ex_chip 3 LevelActive ?w
              = (None, snd (SetPull mem_os ex_chip 3 LevelActive ?w))"
    by code_simp
  have s2: "SetPull mem_os ex_chip 3 LevelInactive ?v
              = (None, snd (SetPull mem_os ex_chip 3 LevelInactive ?v))"
    by code_simp
  have s3: "Toggle mem_os ex_chip 3 (snd (SetPull mem_os ex_chip 3 LevelActive ?w))
            = (None, snd (Toggle mem_os ex_chip 3 (snd (SetPull mem_os ex_chip 3 LevelActive ?w))))"
    by code_simp
  have s4: "Toggle mem_os ex_chip 3 (snd (SetPull mem_os ex_chip 3 LevelInactive ?v))
            = (None, snd (Toggle mem_os ex_chip 3 (snd (SetPull mem_os ex_chip 3 LevelInactive ?v))))"
    by code_simp
  have p: "?p = ''/sys/devices/platform/gpio-sim.0/gpiochip0/sim_gpio3/pull''"
    by code_simp
  have r: "os_ReadFile mem_os ?p (ex_lines d) = (Inr d, ex_lines d)" for d
    unfolding p by (simp add: mem_os_def mem_ReadFile_def ex_lines_def)
  have tr: "TrimSpace ''pull-down\<newline>'' = ''pull-down''" "TrimSpace ''pull-up\<newline>'' = ''pull-up''"
    by code_simp+
  note A = pull_round_trip [OF st, of ?w "snd (SetPull mem_os ex_chip 3 LevelActive ?w)"
        "snd (Toggle mem_os ex_chip 3 (snd (SetPull mem_os ex_chip 3 LevelActive ?w)))"]
  note B = pull_round_trip [OF st, of ?v "snd (SetPull mem_os ex_chip 3 LevelInactive ?v)"
        "snd (Toggle mem_os ex_chip 3 (snd (SetPull mem_os ex_chip 3 LevelInactive ?v)))"]
  have 1: "fst (Pull mem_os ex_chip 3 (snd (SetPull mem_os ex_chip 3 LevelActive ?w)))
       = (LevelActive, None)"
    by (rule mp [OF A [THEN conjunct1] s1])
  have 2: "fst (Pull mem_os ex_chip 3 (snd (SetPull mem_os ex_chip 3 LevelInactive ?v)))
       = (LevelInactive, None)"
    by (rule mp [OF B [THEN conjunct2, THEN conjunct1] s2])
  have 3: "fst (Pull mem_os ex_chip 3
        (snd (Toggle mem_os ex_chip 3 (snd (SetPull mem_os ex_chip 3 LevelActive ?w)))))
       = (LevelInactive, None)"
    by (rule mp [OF A [THEN conjunct2, THEN conjunct2, THEN conjunct1] conjI [OF s1 s3]])
  have 4: "fst (Pull mem_os ex_chip 3
        (snd (Toggle mem_os ex_chip 3 (snd (SetPull mem_os ex_chip 3 LevelInactive ?v)))))
       = (LevelActive, None)"
    by (rule mp [OF B [THEN conjunct2, THEN conjunct2, THEN conjunct2, THEN conjunct1]
          conjI [OF s2 s4]])
  note L = A [THEN conjunct2, THEN conjunct2, THEN conjunct2, THEN conjunct2, THEN conjunct2,
              THEN conjunct2, rule_format]
  have 5: "snd (snd (Toggle (logged mem_os) ex_chip 3 (ex_lines ''pull-down\<newline>'', [])))
     = [ReadFile ?p, WriteFile ?p ''pull-up'' mode0666]"
    using L [OF conjI [OF r [of "''pull-down\<newline>''"] disjI1 [OF tr(1)]]]
    by (simp add: tr)
  have 6: "snd (snd (Toggle (logged mem_os) ex_chip 3 (ex_lines ''pull-up\<newline>'', [])))
     = [ReadFile ?p, WriteFile ?p ''pull-down'' mode0666]"
    using L [OF conjI [OF r [of "''pull-up\<newline>''"] disjI2 [OF tr(2)]]]
    by (simp add: tr)
  show ?thesis
    by (intro conjI) (rule 1 2 3 4 5 6)+
qed

section \<open>Activation\<close>

lemma foldl_applySimOption_banks:
  "banks (foldl (\<lambda>b opt. applySimOption opt b) b0 options) = banks b0 @ banksOf options"
proof (induction options arbitrary: b0)
  case Nil
  then show ?case by simp
next
  case (Cons opt options)
  then show ?case by (cases opt) simp_all
qed

text \<open>
  C3. For a builder with no bank, \<^verbatim>\<open>live\<close> returns the error "no banks defined" and
  leaves the counter and the world as they were, on every operating system: no call is
  made before the rejection. (With \<open>logged os\<close> for \<open>os\<close>, the list of calls stays as
  it was.)
\<close>

theorem live_no_banks:
  assumes "banks b = []"
  shows "live os b st = (Inl (New ''no banks defined''), st)"
  using assms by (simp add: live_def split: prod.splits)

theorem live_no_banks_witness:
  "live (logged mem_os) \<lparr>name = ''s'', banks = []\<rparr> (0, (ex_world, []))
     = (Inl (New ''no banks defined''), (0, (ex_world, [])))"
  using live_no_banks [of "\<lparr>name = ''s'', banks = []\<rparr>" "logged mem_os" "(0, (ex_world, []))"]
  by simp

text \<open>The same for \<^verbatim>\<open>NewSim\<close> called with no \<^verbatim>\<open>WithBank\<close> option.\<close>

lemma NewSim_without_bank:
  assumes "banksOf options = []"
  shows "NewSim os options st = (Inl (New ''no banks defined''), st)"
  using assms
  by (simp add: NewSim_def live_def foldl_applySimOption_banks split: prod.splits)

lemma map_cfg_update:
  "(i < length xs \<Longrightarrow> cfg y = cfg (xs ! i)) \<Longrightarrow> map cfg (xs[i := y]) = map cfg xs"
  by (cases "i < length xs") (auto simp: list_eq_iff_nth_eq nth_list_update)

lemma liveChips_cfg:
  "liveChips os dev is s w = (Inr s', w') \<Longrightarrow> map cfg (Chips s') = map cfg (Chips s)"
proof (induction "is" arbitrary: s w)
  case Nil
  then show ?case by simp
next
  case (Cons i "is")
  let ?bankPath = "Join [configfsPath s, ''bank'' @ itoa (int i)]"
  from Cons.prems obtain chip w1 where
    rd: "readAttr os ?bankPath ''chip_name'' w = (Inr chip, w1)"
    by (auto simp: Let_def split: prod.splits sum.splits)
  let ?s1 = "s\<lparr>Chips := (Chips s)[i := (Chips s ! i)\<lparr>devName := dev, chipName := chip\<rparr>]\<rparr>"
  let ?s2 = "?s1\<lparr>Chips := (Chips ?s1)[i := (Chips ?s1 ! i)
                \<lparr>devPath := Join [''/dev'', chip],
                 sysfsPath := Join [''/sys/devices/platform'', dev, chip]\<rparr>]\<rparr>"
  from Cons.prems rd obtain w2 where "liveChips os dev is ?s2 w2 = (Inr s', w')"
    by (auto simp: Let_def split: prod.splits sum.splits if_splits)
  then have "map cfg (Chips s') = map cfg (Chips ?s2)" by (rule Cons.IH)
  also have "map cfg (Chips ?s2) = map cfg (Chips ?s1)"
    by (simp add: map_cfg_update del: list_update_overwrite)
  also have "map cfg (Chips ?s1) = map cfg (Chips s)"
    by (simp add: map_cfg_update)
  finally show ?case .
qed

lemma live_cfg:
  assumes "live os b st = (Inr s, st')"
  shows "map cfg (Chips s) = banks b"
  using assms
  by (auto simp: live_def Let_def comp_def
      split: prod.splits sum.splits if_splits option.splits dest!: liveChips_cfg)

text \<open>
  C9. When \<^verbatim>\<open>NewSim\<close> succeeds, the configurations of the chips of the sim are the banks
  given to \<^verbatim>\<open>NewSim\<close>, in the order they were given: \<^verbatim>\<open>Chips[i].Config()\<close> is the
  \<open>i\<close>-th bank, so its \<^verbatim>\<open>NumLines\<close> and \<^verbatim>\<open>Label\<close> are those of that bank.
\<close>

theorem NewSim_keeps_banks:
  assumes "NewSim os options st = (Inr s, st')"
  shows "map Config (Chips s) = banksOf options
     \<and> (\<forall>i < length (banksOf options).
          NumLines (Config (Chips s ! i)) = NumLines (banksOf options ! i)
        \<and> Label (Config (Chips s ! i)) = Label (banksOf options ! i))"
proof -
  from assms have "map cfg (Chips s) = banksOf options"
    by (simp add: NewSim_def live_cfg foldl_applySimOption_banks)
  then have m: "map Config (Chips s) = banksOf options"
    by (simp add: Config_def [abs_def])
  then have "\<And>i. i < length (banksOf options) \<Longrightarrow> Config (Chips s ! i) = banksOf options ! i"
    by (metis length_map nth_map)
  with m show ?thesis by simp
qed

theorem NewSim_keeps_banks_witness:
  "\<exists>s st'. NewSim mem_os [WithName ''s'', WithBank ex_bank] (0, ex_world) = (Inr s, st')
     \<and> map Config (Chips s) = [ex_bank]
     \<and> NumLines (Config (Chips s ! 0)) = 8 \<and> Label (Config (Chips s ! 0)) = ''left''"
proof -
  have "case NewSim mem_os [WithName ''s'', WithBank ex_bank] (0, ex_world) of
          (Inr s, st') \<Rightarrow> True | (Inl e, st') \<Rightarrow> False"
    by code_simp
  then obtain s st' where
    run: "NewSim mem_os [WithName ''s'', WithBank ex_bank] (0, ex_world) = (Inr s, st')"
    by (auto split: prod.splits sum.splits)
  have k: "NumLines ex_bank = 8" "Label ex_bank = ''left''"
    by (simp_all add: ex_bank_def NewBank_def)
  from NewSim_keeps_banks [OF run] have "map Config (Chips s) = [ex_bank]"
    and "NumLines (Config (Chips s ! 0)) = 8 \<and> Label (Config (Chips s ! 0)) = ''left''"
    by (simp_all add: k)
  with run show ?thesis by (intro exI [of _ s] exI [of _ st']) simp
qed

section \<open>Reading an attribute\<close>

lemma find_SomeD: "find P xs = Some x \<Longrightarrow> P x \<and> x \<in> set xs"
  by (induction xs) (auto split: if_splits)

lemma leadingSpace_SomeD: "leadingSpace s = Some r \<Longrightarrow> r \<in> set space_runes \<and> prefix r s"
  unfolding leadingSpace_def by (blast dest: find_SomeD)

lemma trailingSpace_SomeD: "trailingSpace s = Some r \<Longrightarrow> r \<in> set space_runes \<and> suffix r s"
  unfolding trailingSpace_def by (blast dest: find_SomeD)

lemma TrimLeftSpace_decomp:
  "\<exists>ls. set ls \<subseteq> set space_runes \<and> s = concat ls @ TrimLeftSpace s
        \<and> leadingSpace (TrimLeftSpace s) = None"
proof (induction s rule: TrimLeftSpace.induct)
  case (1 s)
  show ?case
  proof (cases "leadingSpace s")
    case None
    then have "TrimLeftSpace s = s" by (simp add: TrimLeftSpace.simps)
    with None show ?thesis by (intro exI [of _ "[]"]) simp
  next
    case (Some r)
    then have t: "TrimLeftSpace s = TrimLeftSpace (drop (length r) s)"
      by (subst TrimLeftSpace.simps) simp
    from Some have r: "r \<in> set space_runes" and "prefix r s"
      by (auto dest: leadingSpace_SomeD)
    then have s: "s = r @ drop (length r) s" by (auto simp: prefix_def)
    from 1 [OF Some] obtain ls where ls: "set ls \<subseteq> set space_runes"
      "drop (length r) s = concat ls @ TrimLeftSpace (drop (length r) s)"
      "leadingSpace (TrimLeftSpace (drop (length r) s)) = None"
      by blast
    from s ls(2) have "s = concat (r # ls) @ TrimLeftSpace s"
      unfolding t by (metis append.assoc concat.simps(2))
    with r ls(1,3) show ?thesis
      unfolding t by (intro exI [of _ "r # ls"]) simp
  qed
qed

lemma TrimRightSpace_decomp:
  "\<exists>rs. set rs \<subseteq> set space_runes \<and> s = TrimRightSpace s @ concat rs
        \<and> trailingSpace (TrimRightSpace s) = None"
proof (induction s rule: TrimRightSpace.induct)
  case (1 s)
  show ?case
  proof (cases "trailingSpace s")
    case None
    then have "TrimRightSpace s = s" by (simp add: TrimRightSpace.simps)
    with None show ?thesis by (intro exI [of _ "[]"]) simp
  next
    case (Some r)
    then have t: "TrimRightSpace s = TrimRightSpace (take (length s - length r) s)"
      by (subst TrimRightSpace.simps) simp
    from Some have r: "r \<in> set space_runes" and "suffix r s"
      by (auto dest: trailingSpace_SomeD)
    then have s: "s = take (length s - length r) s @ r" by (auto simp: suffix_def)
    from 1 [OF Some] obtain rs where rs: "set rs \<subseteq> set space_runes"
      "take (length s - length r) s = TrimRightSpace (take (length s - length r) s) @ concat rs"
      "trailingSpace (TrimRightSpace (take (length s - length r) s)) = None"
      by blast
    have "concat (rs @ [r]) = concat rs @ r" by simp
    with s rs(2) have "s = TrimRightSpace s @ concat (rs @ [r])"
      unfolding t by (metis append.assoc)
    with r rs(1,3) show ?thesis
      unfolding t by (intro exI [of _ "rs @ [r]"]) simp
  qed
qed

lemma TrimRightSpace_prefix: "prefix (TrimRightSpace s) s"
  using TrimRightSpace_decomp [of s] by (metis prefixI)

lemma leadingSpace_None_prefix:
  assumes "leadingSpace s = None" and "prefix t s"
  shows "leadingSpace t = None"
proof (rule ccontr)
  assume "leadingSpace t \<noteq> None"
  then obtain r where "leadingSpace t = Some r" by blast
  then have "r \<in> set space_runes" and "prefix r t" by (auto dest: leadingSpace_SomeD)
  with assms(2) have "prefix r s" by auto
  with \<open>r \<in> set space_runes\<close> have "leadingSpace s \<noteq> None"
    unfolding leadingSpace_def by (auto simp: find_None_iff)
  with assms(1) show False by simp
qed

lemma TrimSpace_decomp:
  "\<exists>ls rs. set ls \<subseteq> set space_runes \<and> set rs \<subseteq> set space_runes
     \<and> s = concat ls @ TrimSpace s @ concat rs
     \<and> leadingSpace (TrimSpace s) = None \<and> trailingSpace (TrimSpace s) = None"
proof -
  obtain ls where ls: "set ls \<subseteq> set space_runes" "s = concat ls @ TrimLeftSpace s"
    "leadingSpace (TrimLeftSpace s) = None"
    using TrimLeftSpace_decomp by blast
  obtain rs where rs: "set rs \<subseteq> set space_runes"
    "TrimLeftSpace s = TrimSpace s @ concat rs" "trailingSpace (TrimSpace s) = None"
    using TrimRightSpace_decomp [of "TrimLeftSpace s"] unfolding TrimSpace_def by blast
  have "leadingSpace (TrimSpace s) = None"
    unfolding TrimSpace_def
    by (rule leadingSpace_None_prefix [OF ls(3) TrimRightSpace_prefix])
  moreover from ls(2) rs(2) have "s = concat ls @ TrimSpace s @ concat rs" by simp
  ultimately show ?thesis using ls(1) rs(1,3) by blast
qed

text \<open>
  C8, as the code has it. When the file of the attribute is read with content \<open>d\<close>,
  \<^verbatim>\<open>readAttr\<close> returns a text \<open>v\<close> such that \<open>d\<close> is \<open>v\<close> with white space before it
  and white space after it: the white space at both ends is removed, the text between
  is unchanged, and \<open>v\<close> neither starts nor ends with white space.
\<close>
theorem readAttr_trims_both_ends:
  assumes "os_ReadFile os (Join [p, a]) w = (Inr d, w')"
  shows "\<exists>ls v rs. readAttr os p a w = (Inr v, w')
     \<and> d = concat ls @ v @ concat rs
     \<and> set ls \<subseteq> set space_runes \<and> set rs \<subseteq> set space_runes
     \<and> leadingSpace v = None \<and> trailingSpace v = None"
proof -
  from assms have "readAttr os p a w = (Inr (TrimSpace d), w')"
    by (simp add: readAttr_def)
  with TrimSpace_decomp [of d] show ?thesis by blast
qed

theorem readAttr_trims_both_ends_witness:
  "\<exists>ls v rs. readAttr mem_os ''/sys/devices/platform/gpio-sim.0/gpiochip0/sim_gpio3'' ''pull''
                (ex_lines '' pull-up\<newline>'') = (Inr v, ex_lines '' pull-up\<newline>'')
     \<and> '' pull-up\<newline>'' = concat ls @ v @ concat rs
     \<and> set ls \<subseteq> set space_runes \<and> set rs \<subseteq> set space_runes
     \<and> leadingSpace v = None \<and> trailingSpace v = None"
proof -
  have r: "os_ReadFile mem_os (Join [''/sys/devices/platform/gpio-sim.0/gpiochip0/sim_gpio3'', ''pull''])
             (ex_lines '' pull-up\<newline>'') = (Inr '' pull-up\<newline>'', ex_lines '' pull-up\<newline>'')"
    by code_simp
  show ?thesis using readAttr_trims_both_ends [OF r] .
qed

text \<open>
  C8, as stated, fails: it has \<^verbatim>\<open>readAttr\<close> return the content with the trailing white
  space removed and the leading white space kept. For the content \<^verbatim>\<open>" pull-up\n"\<close>
  that is \<^verbatim>\<open>" pull-up"\<close>, and \<^verbatim>\<open>readAttr\<close> returns \<^verbatim>\<open>"pull-up"\<close>.
\<close>
theorem readAttr_drops_leading_space:
  "os_ReadFile mem_os (Join [''/sys/devices/platform/gpio-sim.0/gpiochip0/sim_gpio3'', ''pull''])
     (ex_lines '' pull-up\<newline>'') = (Inr '' pull-up\<newline>'', ex_lines '' pull-up\<newline>'')
   \<and> fst (readAttr mem_os ''/sys/devices/platform/gpio-sim.0/gpiochip0/sim_gpio3'' ''pull''
            (ex_lines '' pull-up\<newline>'')) = Inr ''pull-up''
   \<and> TrimRightSpace '' pull-up\<newline>'' = '' pull-up''
   \<and> fst (readAttr mem_os ''/sys/devices/platform/gpio-sim.0/gpiochip0/sim_gpio3'' ''pull''
            (ex_lines '' pull-up\<newline>'')) \<noteq> Inr (TrimRightSpace '' pull-up\<newline>'')"
  by code_simp

section \<open>The calls of \<^verbatim>\<open>setupConfigfs\<close>\<close>

lemma setupNames_calls:
  "setupNames (logged os) bankPath ns (w, tr) = (None, (w', tr'))
     \<Longrightarrow> tr' = tr @ concat (map (nameCalls bankPath) ns)"
proof (induction ns arbitrary: w tr)
  case Nil
  then show ?case by simp
next
  case (Cons e ns)
  obtain offset n where e: "e = (offset, n)" by (cases e)
  from Cons.prems show ?case
    unfolding e
    by (auto simp: Let_def writeAttr_def nameCalls_def
        split: prod.splits option.splits dest!: Cons.IH)
qed

lemma setupHogs_calls:
  "setupHogs (logged os) bankPath hs (w, tr) = (None, (w', tr'))
     \<Longrightarrow> tr' = tr @ concat (map (hogCalls bankPath) hs)"
proof (induction hs arbitrary: w tr)
  case Nil
  then show ?case by simp
next
  case (Cons e hs)
  obtain offset h where e: "e = (offset, h)" by (cases e)
  from Cons.prems show ?case
    unfolding e
    by (auto simp: Let_def writeAttr_def hogCalls_def hogDirectionToString_def
        split: prod.splits option.splits dest!: Cons.IH)
qed

lemma bind_NoneE:
  assumes "(case f of (Some err, w1) \<Rightarrow> (Some err, w1) | (None, w1) \<Rightarrow> k w1) = (None, z)"
  obtains w1 where "f = (None, w1)" and "k w1 = (None, z)"
  using assms by (auto split: prod.splits option.splits)

lemma logged_MkdirAll_calls:
  "os_MkdirAll (logged os) p m st = (r, st') \<Longrightarrow> snd st' = snd st @ [MkdirAll p m]"
  by (cases st) (auto split: prod.splits)

lemma logged_writeAttr_calls:
  "writeAttr (logged os) p a v st = (r, st')
     \<Longrightarrow> snd st' = snd st @ [WriteFile (Join [p, a]) v mode0666]"
  by (cases st) (auto simp: writeAttr_def split: prod.splits)

lemma setupBanks_calls:
  "setupBanks (logged os) cpath i cs st = (None, st')
     \<Longrightarrow> snd st' = snd st @ banksCalls cpath i (map cfg cs)"
proof (induction cs arbitrary: i st)
  case Nil
  then show ?case by simp
next
  case (Cons c cs)
  let ?bp = "Join [cpath, ''bank'' @ itoa (int i)]"
  from Cons.prems obtain s1 s2 s3 s4 s5 where
    mk: "os_MkdirAll (logged os) ?bp mode0755 st = (None, s1)"
    and lb: "writeAttr (logged os) ?bp ''label'' (Label (cfg c)) s1 = (None, s2)"
    and nl: "writeAttr (logged os) ?bp ''num_lines'' (itoa (NumLines (cfg c))) s2 = (None, s3)"
    and nm: "setupNames (logged os) ?bp (Names (cfg c)) s3 = (None, s4)"
    and hg: "setupHogs (logged os) ?bp (Hogs (cfg c)) s4 = (None, s5)"
    and rest: "setupBanks (logged os) cpath (Suc i) cs s5 = (None, st')"
    unfolding setupBanks.simps Let_def by (elim bind_NoneE)
  have "snd s1 = snd st @ [MkdirAll ?bp mode0755]"
    using mk by (rule logged_MkdirAll_calls)
  moreover have "snd s2 = snd s1 @ [WriteFile (Join [?bp, ''label'']) (Label (cfg c)) mode0666]"
    using lb by (rule logged_writeAttr_calls)
  moreover have "snd s3 = snd s2
      @ [WriteFile (Join [?bp, ''num_lines'']) (itoa (NumLines (cfg c))) mode0666]"
    using nl by (rule logged_writeAttr_calls)
  moreover have "snd s4 = snd s3 @ concat (map (nameCalls ?bp) (Names (cfg c)))"
    using nm by (cases s3, cases s4) (auto dest: setupNames_calls)
  moreover have "snd s5 = snd s4 @ concat (map (hogCalls ?bp) (Hogs (cfg c)))"
    using hg by (cases s4, cases s5) (auto dest: setupHogs_calls)
  moreover have "snd st' = snd s5 @ banksCalls cpath (Suc i) (map cfg cs)"
    using rest by (rule Cons.IH)
  ultimately show ?case
    by (simp add: bankCalls_def Let_def)
qed

lemma banksCalls_nth:
  "j < length ks \<Longrightarrow> \<exists>pre post. banksCalls cpath i ks = pre @ bankCalls cpath (i + j) (ks ! j) @ post"
proof (induction ks arbitrary: i j)
  case Nil
  then show ?case by simp
next
  case (Cons k ks)
  show ?case
  proof (cases j)
    case 0
    then show ?thesis
      by (intro exI [of _ "[]"] exI [of _ "banksCalls cpath (Suc i) ks"]) simp
  next
    case (Suc j')
    with Cons.prems have "j' < length ks" by simp
    from Cons.IH [OF this, of "Suc i"] obtain pre post where
      "banksCalls cpath (Suc i) ks = pre @ bankCalls cpath (Suc i + j') (ks ! j') @ post"
      by blast
    then have "banksCalls cpath i (k # ks)
        = (bankCalls cpath i k @ pre) @ bankCalls cpath (i + j) ((k # ks) ! j) @ post"
      using Suc by simp
    then show ?thesis by blast
  qed
qed

lemma concat_map_member:
  "x \<in> set xs \<Longrightarrow> \<exists>pre post. concat (map f xs) = pre @ f x @ post"
proof -
  assume "x \<in> set xs"
  then obtain ys zs where "xs = ys @ x # zs" by (auto dest: split_list)
  then have "concat (map f xs) = concat (map f ys) @ f x @ concat (map f zs)" by simp
  then show ?thesis by blast
qed

text \<open>
  C7. When \<^verbatim>\<open>setupConfigfs\<close> succeeds, then for every chip \<open>i\<close> of the sim and every
  hogged line \<open>(offset, h)\<close> of its bank, the calls made contain, one after the other:
  the creation of the directory \<^verbatim>\<open>bank<i>/line<offset>/hog\<close>, the write of the consumer
  to its attribute \<^verbatim>\<open>name\<close>, and the write to its attribute \<^verbatim>\<open>direction\<close> of
  \<^verbatim>\<open>output-low\<close> for \<^verbatim>\<open>HogDirectionOutputLow\<close>, \<^verbatim>\<open>output-high\<close> for
  \<^verbatim>\<open>HogDirectionOutputHigh\<close> and \<^verbatim>\<open>input\<close> for every other direction.
\<close>
theorem setupConfigfs_hog_calls:
  assumes "setupConfigfs (logged os) s (w, []) = (None, (w', tr))"
    and "i < length (Chips s)"
    and "(offset, h) \<in> set (Hogs (cfg (Chips s ! i)))"
  shows "\<exists>pre post. tr = pre @
     [MkdirAll (Join [Join [configfsPath s, ''bank'' @ itoa (int i)], ''line'' @ itoa offset, ''hog''])
        mode0755,
      WriteFile (Join [Join [Join [configfsPath s, ''bank'' @ itoa (int i)],
                             ''line'' @ itoa offset, ''hog''], ''name''])
        (Consumer h) mode0666,
      WriteFile (Join [Join [Join [configfsPath s, ''bank'' @ itoa (int i)],
                             ''line'' @ itoa offset, ''hog''], ''direction''])
        (if Direction h = HogDirectionOutputLow then ''output-low''
         else if Direction h = HogDirectionOutputHigh then ''output-high''
         else ''input'') mode0666] @ post"
proof -
  let ?bp = "Join [configfsPath s, ''bank'' @ itoa (int i)]"
  let ?k = "cfg (Chips s ! i)"
  from assms(1) have "snd (w', tr) = snd (w, []) @ banksCalls (configfsPath s) 0 (map cfg (Chips s))"
    unfolding setupConfigfs_def by (rule setupBanks_calls)
  then have tr: "tr = banksCalls (configfsPath s) 0 (map cfg (Chips s))" by simp
  from assms(2) have "i < length (map cfg (Chips s))" by simp
  from banksCalls_nth [OF this, of "configfsPath s" 0] obtain p1 q1 where
    "banksCalls (configfsPath s) 0 (map cfg (Chips s))
       = p1 @ bankCalls (configfsPath s) (0 + i) (map cfg (Chips s) ! i) @ q1"
    by blast
  with assms(2) have 1: "tr = p1 @ bankCalls (configfsPath s) i ?k @ q1"
    unfolding tr by simp
  from concat_map_member [OF assms(3), of "hogCalls ?bp"] obtain p2 q2 where
    2: "concat (map (hogCalls ?bp) (Hogs ?k)) = p2 @ hogCalls ?bp (offset, h) @ q2"
    by blast
  define p3 where "p3 = [MkdirAll ?bp mode0755,
          WriteFile (Join [?bp, ''label'']) (Label ?k) mode0666,
          WriteFile (Join [?bp, ''num_lines'']) (itoa (NumLines ?k)) mode0666]
         @ concat (map (nameCalls ?bp) (Names ?k))"
  have 3: "bankCalls (configfsPath s) i ?k = p3 @ concat (map (hogCalls ?bp) (Hogs ?k))"
    by (simp add: p3_def bankCalls_def Let_def)
  have "tr = (p1 @ p3 @ p2) @ hogCalls ?bp (offset, h) @ (q2 @ q1)"
    unfolding 1 3 2 by simp
  then show ?thesis
    by (intro exI [of _ "p1 @ p3 @ p2"] exI [of _ "q2 @ q1"]) (simp add: hogCalls_def Let_def)
qed

theorem setupConfigfs_hog_calls_witness:
  "\<exists>pre post. snd (snd (setupConfigfs (logged mem_os) ex_sim (ex_world, []))) = pre @
     [MkdirAll ''/sys/kernel/config/gpio-sim/s/bank0/line2/hog'' mode0755,
      WriteFile ''/sys/kernel/config/gpio-sim/s/bank0/line2/hog/name'' ''piggy'' mode0666,
      WriteFile ''/sys/kernel/config/gpio-sim/s/bank0/line2/hog/direction'' ''output-low'' mode0666]
     @ post"
proof -
  have run: "setupConfigfs (logged mem_os) ex_sim (ex_world, [])
      = (None, (fst (snd (setupConfigfs (logged mem_os) ex_sim (ex_world, []))),
                snd (snd (setupConfigfs (logged mem_os) ex_sim (ex_world, [])))))"
    by code_simp
  have i: "0 < length (Chips ex_sim)" by (simp add: ex_sim_def)
  have h: "(2, \<lparr>Consumer = ''piggy'', Direction = HogDirectionOutputLow\<rparr>)
             \<in> set (Hogs (cfg (Chips ex_sim ! 0)))"
    by (simp add: ex_sim_def ex_bank_def NewBank_def)
  have p: "Join [Join [configfsPath ex_sim, ''bank'' @ itoa (int 0)], ''line'' @ itoa 2, ''hog'']
             = ''/sys/kernel/config/gpio-sim/s/bank0/line2/hog''"
    "Join [''/sys/kernel/config/gpio-sim/s/bank0/line2/hog'', ''name'']
             = ''/sys/kernel/config/gpio-sim/s/bank0/line2/hog/name''"
    "Join [''/sys/kernel/config/gpio-sim/s/bank0/line2/hog'', ''direction'']
             = ''/sys/kernel/config/gpio-sim/s/bank0/line2/hog/direction''"
    by code_simp+
  show ?thesis
    using setupConfigfs_hog_calls [OF run i h] unfolding p by simp
qed

section \<open>The calls of \<^verbatim>\<open>cleanupConfigfs\<close>\<close>

lemma logged_Remove_calls:
  "snd (snd (os_Remove (logged os) p st)) = snd st @ [Remove p]"
  by (cases st) (auto split: prod.splits)

lemma cleanupHogs_calls:
  "snd (cleanupHogs (logged os) bankPath hs st)
     = snd st @ concat (map (\<lambda>e. [Remove (Join [Join [bankPath, ''line'' @ itoa (fst e)], ''hog'']),
                                     Remove (Join [bankPath, ''line'' @ itoa (fst e)])]) hs)"
proof (induction hs arbitrary: st)
  case Nil
  then show ?case by simp
next
  case (Cons e hs)
  obtain offset h where e: "e = (offset, h)" by (cases e)
  show ?case
    unfolding e by (simp add: Let_def Cons.IH logged_Remove_calls)
qed

lemma cleanupNames_calls:
  "snd (cleanupNames (logged os) bankPath ns st)
     = snd st @ map (\<lambda>e. Remove (Join [bankPath, ''line'' @ itoa (fst e)])) ns"
proof (induction ns arbitrary: st)
  case Nil
  then show ?case by simp
next
  case (Cons e ns)
  obtain offset n where e: "e = (offset, n)" by (cases e)
  show ?case
    unfolding e by (simp add: Let_def Cons.IH logged_Remove_calls)
qed

text \<open>
  One step of the loop over the banks, on every operating system: a bank whose directory
  is missing gets the check and no other call; a bank whose directory is there gets the
  check and then the removals of its lines and of its directory.
\<close>

lemma cleanupBanks_missing_bank:
  assumes "os_Stat os (Join [cpath, ''bank'' @ itoa (int i)]) w = (Some err, w1)"
  shows "cleanupBanks (logged os) cpath i (c # cs) (w, tr)
     = cleanupBanks (logged os) cpath (Suc i) cs
         (w1, tr @ [Stat (Join [cpath, ''bank'' @ itoa (int i)])])"
  using assms by (simp add: Let_def)

lemma cleanupBanks_present_bank:
  assumes "os_Stat os (Join [cpath, ''bank'' @ itoa (int i)]) w = (None, w1)"
  shows "\<exists>w4. cleanupBanks (logged os) cpath i (c # cs) (w, tr)
     = cleanupBanks (logged os) cpath (Suc i) cs
         (w4, tr @ Stat (Join [cpath, ''bank'' @ itoa (int i)])
                 # bankRemovals (Join [cpath, ''bank'' @ itoa (int i)]) (cfg c))"
proof -
  let ?bp = "Join [cpath, ''bank'' @ itoa (int i)]"
  let ?s4 = "snd (os_Remove (logged os) ?bp
                 (cleanupNames (logged os) ?bp (Names (cfg c))
                    (cleanupHogs (logged os) ?bp (Hogs (cfg c)) (w1, tr @ [Stat ?bp]))))"
  have "snd ?s4 = tr @ Stat ?bp # bankRemovals ?bp (cfg c)"
    by (simp add: logged_Remove_calls cleanupNames_calls cleanupHogs_calls bankRemovals_def)
  then have "?s4 = (fst ?s4, tr @ Stat ?bp # bankRemovals ?bp (cfg c))"
    by (metis prod.collapse)
  moreover from assms have "cleanupBanks (logged os) cpath i (c # cs) (w, tr)
      = cleanupBanks (logged os) cpath (Suc i) cs ?s4"
    by (simp add: Let_def)
  ultimately show ?thesis by metis
qed

text \<open>
  On every operating system, when the write of \<^verbatim>\<open>0\<close> to \<^verbatim>\<open>live\<close> fails,
  \<^verbatim>\<open>cleanupConfigfs\<close> returns the error of the write, and the write is the only call it
  has made.
\<close>

lemma cleanupConfigfs_failed_write:
  assumes "os_WriteFile os (Join [configfsPath s, ''live'']) ''0'' mode0666 w = (Some err, w1)"
  shows "cleanupConfigfs (logged os) s (w, [])
     = (Some err, (w1, [WriteFile (Join [configfsPath s, ''live'']) ''0'' mode0666]))"
  using assms by (simp add: cleanupConfigfs_def writeAttr_def)

text \<open>
  C2 fails on the code. On a machine where the tree of the sim \<^verbatim>\<open>s\<close> is in place and
  the kernel refuses the write of \<^verbatim>\<open>0\<close> to its attribute \<^verbatim>\<open>live\<close>, \<^verbatim>\<open>Close\<close> makes
  that write and no other call: the directory of bank 0 is there, and neither its removal
  nor that of the directory of the sim is attempted; the machine is left as it was.
\<close>

theorem Close_stops_at_failed_write:
  "fst (os_WriteFile mem_os ''/sys/kernel/config/gpio-sim/s/live'' ''0'' mode0666 ex_refusing)
     = Some (OSError ''/sys/kernel/config/gpio-sim/s/live: operation not permitted'')
   \<and> fst (os_Stat mem_os ''/sys/kernel/config/gpio-sim/s/bank0'' ex_refusing) = None
   \<and> snd (Close (logged mem_os) ex_sim (ex_refusing, []))
     = (ex_refusing, [WriteFile ''/sys/kernel/config/gpio-sim/s/live'' ''0'' mode0666])
   \<and> Remove ''/sys/kernel/config/gpio-sim/s/bank0'' \<notin> set (snd (snd (Close (logged mem_os) ex_sim (ex_refusing, []))))
   \<and> Remove ''/sys/kernel/config/gpio-sim/s'' \<notin> set (snd (snd (Close (logged mem_os) ex_sim (ex_refusing, []))))"
  by code_simp

text \<open>
  The same through \<^verbatim>\<open>NewSim\<close>, where \<^verbatim>\<open>Close\<close> is the rollback: on a machine whose
  kernel refuses the writes to \<^verbatim>\<open>live\<close>, the sim cannot go live, the rollback stops at
  its first write, and the tree that was built stays.
\<close>

lemma NewSim_failed_rollback_leaves_tree:
  "fst (NewSim (logged mem_os) [WithName ''s'', WithBank ex_bank] (0, (ex_unwilling, [])))
     = Inl (OSError ''/sys/kernel/config/gpio-sim/s/live: operation not permitted'')
   \<and> snd (snd (snd (NewSim (logged mem_os) [WithName ''s'', WithBank ex_bank] (0, (ex_unwilling, [])))))
     = [Stat ''/sys/kernel/config/gpio-sim'',
        Stat ''/sys/kernel/config/gpio-sim/s'',
        MkdirAll ''/sys/kernel/config/gpio-sim/s/bank0'' mode0755,
        WriteFile ''/sys/kernel/config/gpio-sim/s/bank0/label'' ''left'' mode0666,
        WriteFile ''/sys/kernel/config/gpio-sim/s/bank0/num_lines'' ''8'' mode0666,
        Mkdir ''/sys/kernel/config/gpio-sim/s/bank0/line3'' mode0755,
        WriteFile ''/sys/kernel/config/gpio-sim/s/bank0/line3/name'' ''LED0'' mode0666,
        MkdirAll ''/sys/kernel/config/gpio-sim/s/bank0/line2/hog'' mode0755,
        WriteFile ''/sys/kernel/config/gpio-sim/s/bank0/line2/hog/name'' ''piggy'' mode0666,
        WriteFile ''/sys/kernel/config/gpio-sim/s/bank0/line2/hog/direction'' ''output-low'' mode0666,
        WriteFile ''/sys/kernel/config/gpio-sim/s/live'' ''1'' mode0666,
        WriteFile ''/sys/kernel/config/gpio-sim/s/live'' ''0'' mode0666]
   \<and> fst (os_Stat mem_os ''/sys/kernel/config/gpio-sim/s/bank0''
            (fst (snd (snd (NewSim (logged mem_os) [WithName ''s'', WithBank ex_bank]
                              (0, (ex_unwilling, []))))))) = None"
  by code_simp

section \<open>Name conflict\<close>

lemma uniqueName_logged: "uniqueName (logged os) n = uniqueName os n"
  by (simp add: uniqueName_def appName_def)

lemma configfsMountPoint_quiet:
  "configfsMountPoint (logged os) (w, tr) = (r, (w', tr'))
     \<Longrightarrow> list_all (\<lambda>c. \<not> mutates c) tr' = list_all (\<lambda>c. \<not> mutates c) tr"
  unfolding configfsMountPoint_def
  by (auto simp: Let_def split: prod.splits sum.splits option.splits)

lemma checkMountPoints_quiet:
  "checkMountPoints (logged os) (w, tr) = (r, (w', tr'))
     \<Longrightarrow> list_all (\<lambda>c. \<not> mutates c) tr' = list_all (\<lambda>c. \<not> mutates c) tr"
  unfolding checkMountPoints_def
  by (auto simp: Let_def split: prod.splits sum.splits option.splits
      dest!: configfsMountPoint_quiet)

lemma findConfigfsPath_quiet:
  "findConfigfsPath (logged os) (w, tr) = (r, (w', tr'))
     \<Longrightarrow> list_all (\<lambda>c. \<not> mutates c) tr' = list_all (\<lambda>c. \<not> mutates c) tr"
  unfolding findConfigfsPath_def
  by (auto simp: Let_def split: prod.splits sum.splits option.splits
      dest!: checkMountPoints_quiet)

text \<open>
  C4. Let the builder have a bank, let \<open>nm\<close> be its name (the generated one when it has
  none), let \<^verbatim>\<open>findConfigfsPath\<close> return \<open>root\<close>, and let the path \<open>root/nm\<close> exist
  (\<^verbatim>\<open>os.Stat\<close> returns no error). Then \<^verbatim>\<open>live\<close> fails with the error
  "sim with name 'nm' already exists"; the calls made are those of \<^verbatim>\<open>findConfigfsPath\<close>
  and the \<^verbatim>\<open>os.Stat\<close> of the path, and none of them creates, writes or removes
  anything.
\<close>
theorem live_name_conflict:
  assumes "banks b \<noteq> []"
    and "(if name b = [] then uniqueName os n else (name b, n)) = (nm, n')"
    and "findConfigfsPath (logged os) (w, []) = (Inr root, (w1, tr))"
    and "os_Stat os (Join [root, nm]) w1 = (None, w2)"
  shows "live (logged os) b (n, (w, []))
           = (Inl (New (''sim with name '' @ [CHR 0x27] @ nm @ [CHR 0x27] @ '' already exists'')),
              (n', (w2, tr @ [Stat (Join [root, nm])])))
       \<and> list_all (\<lambda>c. \<not> mutates c) (tr @ [Stat (Join [root, nm])])"
proof -
  from assms(3) have "list_all (\<lambda>c. \<not> mutates c) tr"
    by (auto dest: findConfigfsPath_quiet)
  then have q: "list_all (\<lambda>c. \<not> mutates c) (tr @ [Stat (Join [root, nm])])"
    by simp
  have u: "(if name b = [] then uniqueName (logged os) n else (name b, n)) = (nm, n')"
    unfolding uniqueName_logged by (rule assms(2))
  from assms(4) have st: "os_Stat (logged os) (Join [root, nm]) (w1, tr)
      = (None, (w2, tr @ [Stat (Join [root, nm])]))"
    by simp
  have "live (logged os) b (n, (w, []))
           = (Inl (New (''sim with name '' @ [CHR 0x27] @ nm @ [CHR 0x27] @ '' already exists'')),
              (n', (w2, tr @ [Stat (Join [root, nm])])))"
    unfolding live_def using assms(1) by (simp add: u assms(3) st Let_def del: logged_simps)
  with q show ?thesis by blast
qed

theorem live_name_conflict_witness:
  "live (logged mem_os) \<lparr>name = ''s'', banks = [ex_bank]\<rparr> (0, (ex_refusing, []))
     = (Inl (New (''sim with name '' @ [CHR 0x27] @ ''s'' @ [CHR 0x27] @ '' already exists'')),
        (0, (ex_refusing, [Stat ''/sys/kernel/config/gpio-sim'', Stat ''/sys/kernel/config/gpio-sim/s''])))
   \<and> list_all (\<lambda>c. \<not> mutates c)
        [Stat ''/sys/kernel/config/gpio-sim'', Stat ''/sys/kernel/config/gpio-sim/s'']"
proof -
  have a: "banks \<lparr>name = ''s'', banks = [ex_bank]\<rparr> \<noteq> []" by simp
  have b: "(if name \<lparr>name = ''s'', banks = [ex_bank]\<rparr> = [] then uniqueName mem_os 0
            else (name \<lparr>name = ''s'', banks = [ex_bank]\<rparr>, 0)) = (''s'', 0)"
    by simp
  have c: "findConfigfsPath (logged mem_os) (ex_refusing, [])
      = (Inr ''/sys/kernel/config/gpio-sim'', (ex_refusing, [Stat ''/sys/kernel/config/gpio-sim'']))"
    by code_simp
  have d: "os_Stat mem_os (Join [''/sys/kernel/config/gpio-sim'', ''s'']) ex_refusing
      = (None, ex_refusing)"
    by code_simp
  have p: "Join [''/sys/kernel/config/gpio-sim'', ''s''] = ''/sys/kernel/config/gpio-sim/s''"
    by code_simp
  show ?thesis
    using live_name_conflict [OF a b c d] unfolding p by simp
qed

section \<open>A device path that is a symbolic link\<close>

text \<open>
  The three ways the loop over the chips of \<^verbatim>\<open>live\<close> fails at a chip, on every
  operating system: when the chip name cannot be read, \<^verbatim>\<open>Close\<close> is called; when
  \<^verbatim>\<open>os.Lstat\<close> of the device path fails, or shows a symbolic link, the loop returns
  the error in the world as \<^verbatim>\<open>os.Lstat\<close> left it.
\<close>

lemma liveChips_chip_name_failure:
  assumes "os_ReadFile os (Join [Join [configfsPath s, ''bank'' @ itoa (int i)], ''chip_name'']) w
             = (Inl e, w1)"
  shows "liveChips os dev (i # is) s w = (Inl e, snd (Close os s w1))"
  using assms by (simp add: readAttr_def Let_def)

lemma liveChips_Lstat_failure:
  assumes "os_ReadFile os (Join [Join [configfsPath s, ''bank'' @ itoa (int i)], ''chip_name'']) w
             = (Inr d, w1)"
    and "os_Lstat os (Join [''/dev'', TrimSpace d]) w1 = (Inl e, w2)"
  shows "liveChips os dev (i # is) s w = (Inl e, w2)"
  using assms by (simp add: readAttr_def Let_def)

lemma liveChips_symlink:
  assumes "os_ReadFile os (Join [Join [configfsPath s, ''bank'' @ itoa (int i)], ''chip_name'']) w
             = (Inr d, w1)"
    and "os_Lstat os (Join [''/dev'', TrimSpace d]) w1 = (Inr mode, w2)"
    and "mode AND ModeSymlink \<noteq> 0"
  shows "liveChips os dev (i # is) s w
     = (Inl (New (''A symlink ('' @ Join [''/dev'', TrimSpace d] @ '') is masking GPIO device ''
                  @ TrimSpace d)), w2)"
  using assms by (simp add: readAttr_def Let_def)

text \<open>
  C1 fails on the code. \<^verbatim>\<open>NewSim\<close> for the sim \<^verbatim>\<open>s\<close> with one bank, on a machine
  where \<^verbatim>\<open>/dev/gpiochip0\<close> is a symbolic link: the call fails with the error of the
  symlink check; the last call made is the \<^verbatim>\<open>os.Lstat\<close> of the device path, so no call
  of the teardown follows; the attribute \<^verbatim>\<open>live\<close> of the sim still holds \<^verbatim>\<open>1\<close> and
  the directory of bank 0 is still there.
\<close>
theorem NewSim_masked_device_leaves_sim_live:
  "fst (NewSim (logged mem_os) [WithName ''s'', WithBank ex_bank] (0, (ex_masked, [])))
     = Inl (New ''A symlink (/dev/gpiochip0) is masking GPIO device gpiochip0'')
   \<and> snd (snd (snd (NewSim (logged mem_os) [WithName ''s'', WithBank ex_bank] (0, (ex_masked, [])))))
     = [Stat ''/sys/kernel/config/gpio-sim'',
        Stat ''/sys/kernel/config/gpio-sim/s'',
        MkdirAll ''/sys/kernel/config/gpio-sim/s/bank0'' mode0755,
        WriteFile ''/sys/kernel/config/gpio-sim/s/bank0/label'' ''left'' mode0666,
        WriteFile ''/sys/kernel/config/gpio-sim/s/bank0/num_lines'' ''8'' mode0666,
        Mkdir ''/sys/kernel/config/gpio-sim/s/bank0/line3'' mode0755,
        WriteFile ''/sys/kernel/config/gpio-sim/s/bank0/line3/name'' ''LED0'' mode0666,
        MkdirAll ''/sys/kernel/config/gpio-sim/s/bank0/line2/hog'' mode0755,
        WriteFile ''/sys/kernel/config/gpio-sim/s/bank0/line2/hog/name'' ''piggy'' mode0666,
        WriteFile ''/sys/kernel/config/gpio-sim/s/bank0/line2/hog/direction'' ''output-low'' mode0666,
        WriteFile ''/sys/kernel/config/gpio-sim/s/live'' ''1'' mode0666,
        ReadFile ''/sys/kernel/config/gpio-sim/s/dev_name'',
        ReadFile ''/sys/kernel/config/gpio-sim/s/bank0/chip_name'',
        Lstat ''/dev/gpiochip0'']
   \<and> map_of (files (fst (snd (snd (NewSim (logged mem_os) [WithName ''s'', WithBank ex_bank]
                                      (0, (ex_masked, [])))))))
        ''/sys/kernel/config/gpio-sim/s/live'' = Some ''1''
   \<and> fst (os_Stat mem_os ''/sys/kernel/config/gpio-sim/s/bank0''
            (fst (snd (snd (NewSim (logged mem_os) [WithName ''s'', WithBank ex_bank]
                              (0, (ex_masked, []))))))) = None"
  by code_simp

text \<open>
  For comparison, the same call on a machine whose kernel does not publish the device
  name: the read of \<^verbatim>\<open>dev_name\<close> fails, the calls of the teardown follow, and the
  machine is left as it was.
\<close>
lemma NewSim_unnamed_device_tears_down:
  "fst (NewSim (logged mem_os) [WithName ''s'', WithBank ex_bank] (0, (ex_nameless, [])))
     = Inl (enoent ''/sys/kernel/config/gpio-sim/s/dev_name'')
   \<and> snd (snd (snd (NewSim (logged mem_os) [WithName ''s'', WithBank ex_bank] (0, (ex_nameless, [])))))
     = [Stat ''/sys/kernel/config/gpio-sim'',
        Stat ''/sys/kernel/config/gpio-sim/s'',
        MkdirAll ''/sys/kernel/config/gpio-sim/s/bank0'' mode0755,
        WriteFile ''/sys/kernel/config/gpio-sim/s/bank0/label'' ''left'' mode0666,
        WriteFile ''/sys/kernel/config/gpio-sim/s/bank0/num_lines'' ''8'' mode0666,
        Mkdir ''/sys/kernel/config/gpio-sim/s/bank0/line3'' mode0755,
        WriteFile ''/sys/kernel/config/gpio-sim/s/bank0/line3/name'' ''LED0'' mode0666,
        MkdirAll ''/sys/kernel/config/gpio-sim/s/bank0/line2/hog'' mode0755,
        WriteFile ''/sys/kernel/config/gpio-sim/s/bank0/line2/hog/name'' ''piggy'' mode0666,
        WriteFile ''/sys/kernel/config/gpio-sim/s/bank0/line2/hog/direction'' ''output-low'' mode0666,
        WriteFile ''/sys/kernel/config/gpio-sim/s/live'' ''1'' mode0666,
        ReadFile ''/sys/kernel/config/gpio-sim/s/dev_name'',
        WriteFile ''/sys/kernel/config/gpio-sim/s/live'' ''0'' mode0666,
        Stat ''/sys/kernel/config/gpio-sim/s/bank0'',
        Remove ''/sys/kernel/config/gpio-sim/s/bank0/line2/hog'',
        Remove ''/sys/kernel/config/gpio-sim/s/bank0/line2'',
        Remove ''/sys/kernel/config/gpio-sim/s/bank0/line3'',
        Remove ''/sys/kernel/config/gpio-sim/s/bank0'',
        Remove ''/sys/kernel/config/gpio-sim/s'']
   \<and> fst (snd (snd (NewSim (logged mem_os) [WithName ''s'', WithBank ex_bank] (0, (ex_nameless, [])))))
     = ex_nameless"
  by code_simp

end
